theory Spec2Isabelle
  imports Main "HOL-Library.Multiset"
begin

text \<open>
  A shallow embedding of the poker server's engine (hand evaluator, pot manager, deck),
  its state serializer and the table state machine, followed by the properties proved
  of them. Definitions come first, in the order of the source files; the theorems follow.
\<close>

section \<open>Cards (types/game.types)\<close>

text \<open>
  A card is a rank drawn from the thirteen one-character rank strings and a suit drawn
  from the four one-character suit strings of \<^verbatim>\<open>Deck.RANKS\<close> and \<^verbatim>\<open>Deck.SUITS\<close>
  (\<open>SH\<close>, \<open>SD\<close>, \<open>SC\<close>, \<open>SS\<close> stand for \<^verbatim>\<open>'H'\<close>, \<^verbatim>\<open>'D'\<close>, \<^verbatim>\<open>'C'\<close>, \<^verbatim>\<open>'S'\<close>).
  Chip amounts are JavaScript numbers that only ever hold integers here; they are
  modelled as \<open>int\<close>.
\<close>

datatype Rank = R2 | R3 | R4 | R5 | R6 | R7 | R8 | R9 | RT | RJ | RQ | RK | RA

datatype Suit = SH | SD | SC | SS

record Card =
  rank :: Rank
  suit :: Suit

datatype error =
    Error string        \<comment> \<open>\<^verbatim>\<open>throw new Error(...)\<close>\<close>
  | TypeError           \<comment> \<open>reading a property of \<^verbatim>\<open>undefined\<close>\<close>

section \<open>HandEvaluator\<close>

datatype HandRank =
    HIGH_CARD | PAIR | TWO_PAIR | THREE_OF_A_KIND | STRAIGHT | FLUSH
  | FULL_HOUSE | FOUR_OF_A_KIND | STRAIGHT_FLUSH | ROYAL_FLUSH


record HandResult =
  hr_rank :: HandRank
  description :: string
  hr_value :: int
  bestCards :: "Card list"

fun RANK_VALUES :: "Rank \<Rightarrow> int" where
  "RANK_VALUES R2 = 2"
| "RANK_VALUES R3 = 3"
| "RANK_VALUES R4 = 4"
| "RANK_VALUES R5 = 5"
| "RANK_VALUES R6 = 6"
| "RANK_VALUES R7 = 7"
| "RANK_VALUES R8 = 8"
| "RANK_VALUES R9 = 9"
| "RANK_VALUES RT = 10"
| "RANK_VALUES RJ = 11"
| "RANK_VALUES RQ = 12"
| "RANK_VALUES RK = 13"
| "RANK_VALUES RA = 14"

text \<open>
  \<^verbatim>\<open>countOccurrences\<close> reduces the array into a plain object. The association list keeps
  the keys in insertion order; a key already present is incremented in place.
\<close>

fun bump :: "'k \<Rightarrow> ('k \<times> nat) list \<Rightarrow> ('k \<times> nat) list" where
  "bump v [] = [(v, 1)]"
| "bump v ((k, c) # acc) = (if k = v then (k, c + 1) # acc else (k, c) # bump v acc)"

definition countOccurrences :: "'k list \<Rightarrow> ('k \<times> nat) list" where
  "countOccurrences arr = foldl (\<lambda>acc val. bump val acc) [] arr"

text \<open>
  \<^verbatim>\<open>Object.entries\<close> enumerates the integer-like keys first, in ascending numeric order,
  and the remaining string keys afterwards in insertion order. Of the rank strings,
  \<^verbatim>\<open>'2'\<close> to \<^verbatim>\<open>'9'\<close> are integer-like; \<^verbatim>\<open>'T'\<close>, \<^verbatim>\<open>'J'\<close>, \<^verbatim>\<open>'Q'\<close>, \<^verbatim>\<open>'K'\<close> and \<^verbatim>\<open>'A'\<close> are not.
\<close>

fun integerKey :: "Rank \<Rightarrow> bool" where
  "integerKey RT = False"
| "integerKey RJ = False"
| "integerKey RQ = False"
| "integerKey RK = False"
| "integerKey RA = False"
| "integerKey _ = True"

definition objectEntries :: "(Rank \<times> nat) list \<Rightarrow> (Rank \<times> nat) list" where
  "objectEntries obj =
     sort_key (\<lambda>(k, c). RANK_VALUES k) (filter (\<lambda>(k, c). integerKey k) obj)
     @ filter (\<lambda>(k, c). \<not> integerKey k) obj"

text \<open>
  \<^verbatim>\<open>.sort((a, b) => b[1] - a[1])\<close>: a stable sort by descending count
  (\<open>sort_key\<close> is a stable insertion sort).
\<close>

definition sortByCountDesc :: "('k \<times> nat) list \<Rightarrow> ('k \<times> nat) list" where
  "sortByCountDesc es = sort_key (\<lambda>(k, c). - int c) es"

text \<open>
  \<^verbatim>\<open>checkStraight\<close>: the sorted values are consecutive, or the ranks contain
  \<^verbatim>\<open>A\<close>, \<^verbatim>\<open>2\<close>, \<^verbatim>\<open>3\<close>, \<^verbatim>\<open>4\<close> and \<^verbatim>\<open>5\<close>.
\<close>

fun consecutive :: "int list \<Rightarrow> bool" where
  "consecutive [] = True"
| "consecutive [v] = True"
| "consecutive (v # w # vs) = (if w \<noteq> v + 1 then False else consecutive (w # vs))"

definition checkStraight :: "Rank list \<Rightarrow> bool" where
  "checkStraight ranks =
     (let values = sort (map RANK_VALUES ranks);
          isStraight = consecutive values
      in if \<not> isStraight \<and> RA \<in> set ranks \<and> R2 \<in> set ranks \<and> R3 \<in> set ranks
            \<and> R4 \<in> set ranks \<and> R5 \<in> set ranks
         then True else isStraight)"

text \<open>
  \<^verbatim>\<open>getHighCard\<close> is \<^verbatim>\<open>Math.max(...values)\<close>. Every rank value is at least 2, so the
  start value 0 of the fold never shows for a non-empty array; \<^verbatim>\<open>evaluate5Cards\<close> throws
  on the empty array before it reaches a call of \<^verbatim>\<open>getHighCard\<close>.
\<close>

definition getHighCard :: "Rank list \<Rightarrow> int" where
  "getHighCard ranks = fold max (map RANK_VALUES ranks) 0"

definition mkResult :: "HandRank \<Rightarrow> string \<Rightarrow> int \<Rightarrow> Card list \<Rightarrow> HandResult" where
  "mkResult r d v cs = \<lparr>hr_rank = r, description = d, hr_value = v, bestCards = cs\<rparr>"

text \<open>
  The branches of \<^verbatim>\<open>evaluate5Cards\<close> from the flush test downwards. \<open>c0\<close> and \<open>k0\<close> are
  \<^verbatim>\<open>sortedCounts[0]\<close>; \<open>rest\<close> is the remainder of \<^verbatim>\<open>sortedCounts\<close>, so that
  \<^verbatim>\<open>sortedCounts[1][1]\<close> on a one-entry array is the \<^verbatim>\<open>TypeError\<close> it is in JavaScript.
\<close>

definition evalLower ::
  "Card list \<Rightarrow> bool \<Rightarrow> bool \<Rightarrow> Rank \<Rightarrow> nat \<Rightarrow> (Rank \<times> nat) list \<Rightarrow> error + HandResult" where
  "evalLower cards isFlush isStraight k0 c0 rest =
     (let ranks = map rank cards in
      if isFlush then Inr (mkResult FLUSH ''Flush'' (6000000 + getHighCard ranks) cards)
      else if isStraight then
        Inr (mkResult STRAIGHT ''Straight'' (5000000 + getHighCard ranks) cards)
      else if c0 = 3 then
        Inr (mkResult THREE_OF_A_KIND ''Three of a Kind''
               (4000000 + RANK_VALUES k0 * 1000) cards)
      else if c0 = 2 then
        (case rest of
           [] \<Rightarrow> Inl TypeError
         | (k1, c1) # _ \<Rightarrow>
             if c1 = 2 then
               Inr (mkResult TWO_PAIR ''Two Pair''
                      (3000000 + RANK_VALUES k0 * 1000 + RANK_VALUES k1) cards)
             else
               Inr (mkResult PAIR ''Pair'' (2000000 + RANK_VALUES k0 * 1000) cards))
      else Inr (mkResult HIGH_CARD ''High Card'' (1000000 + getHighCard ranks) cards))"

definition evaluate5Cards :: "Card list \<Rightarrow> error + HandResult" where
  "evaluate5Cards cards =
     (let ranks = map rank cards;
          suits = map suit cards;
          rankCounts = countOccurrences ranks;
          suitCounts = countOccurrences suits;
          isFlush = list_ex (\<lambda>(k, count'). count' = 5) suitCounts;
          isStraight = checkStraight ranks;
          sortedCounts = sortByCountDesc (objectEntries rankCounts)
      in
      if isFlush \<and> isStraight \<and> RA \<in> set ranks \<and> RK \<in> set ranks then
        Inr (mkResult ROYAL_FLUSH ''Royal Flush'' 10000000 cards)
      else if isFlush \<and> isStraight then
        Inr (mkResult STRAIGHT_FLUSH ''Straight Flush'' (9000000 + getHighCard ranks) cards)
      else
        (case sortedCounts of
           [] \<Rightarrow> Inl TypeError
         | (k0, c0) # rest \<Rightarrow>
             if c0 = 4 then
               Inr (mkResult FOUR_OF_A_KIND ''Four of a Kind''
                      (8000000 + RANK_VALUES k0 * 1000) cards)
             else if c0 = 3 then
               (case rest of
                  [] \<Rightarrow> Inl TypeError
                | (k1, c1) # _ \<Rightarrow>
                    if c1 = 2 then
                      Inr (mkResult FULL_HOUSE ''Full House''
                             (7000000 + RANK_VALUES k0 * 1000 + RANK_VALUES k1) cards)
                    else evalLower cards isFlush isStraight k0 c0 rest)
             else evalLower cards isFlush isStraight k0 c0 rest))"

text \<open>
  \<^verbatim>\<open>getCombinations(arr, size)\<close>: all sub-sequences of the given size, in the order the
  recursive \<^verbatim>\<open>combine(start, chosen)\<close> pushes them.
\<close>

fun getCombinations :: "'a list \<Rightarrow> nat \<Rightarrow> 'a list list" where
  "getCombinations arr 0 = [[]]"
| "getCombinations [] (Suc k) = []"
| "getCombinations (x # xs) (Suc k) =
     map ((#) x) (getCombinations xs k) @ getCombinations xs (Suc k)"

text \<open>
  The loop of \<^verbatim>\<open>evaluateHand\<close>: \<open>best\<close> is \<^verbatim>\<open>bestHand\<close> (\<open>None\<close> for \<^verbatim>\<open>null\<close>); a later
  combination replaces it only when its value is strictly greater.
\<close>

fun bestOf :: "HandResult option \<Rightarrow> Card list list \<Rightarrow> error + HandResult option" where
  "bestOf best [] = Inr best"
| "bestOf best (combo # combos) =
     (case evaluate5Cards combo of
        Inl e \<Rightarrow> Inl e
      | Inr hand \<Rightarrow>
          (case best of
             None \<Rightarrow> bestOf (Some hand) combos
           | Some b \<Rightarrow>
               if hr_value hand > hr_value b then bestOf (Some hand) combos
               else bestOf best combos))"

definition evaluateHand :: "Card list \<Rightarrow> error + HandResult" where
  "evaluateHand cards =
     (if length cards \<noteq> 7 then Inl (Error ''Must provide exactly 7 cards for evaluation'')
      else
        (case bestOf None (getCombinations cards 5) of
           Inl e \<Rightarrow> Inl e
         | Inr None \<Rightarrow> Inl TypeError
         | Inr (Some b) \<Rightarrow> Inr b))"


section \<open>Deck\<close>

text \<open>
  The deck is the array of cards still undealt. \<^verbatim>\<open>deal\<close> and \<^verbatim>\<open>burn\<close> throw when the
  array is too short (\<open>count'\<close> is the parameter \<^verbatim>\<open>count\<close>). The shuffle draws from
  \<^verbatim>\<open>Math.random\<close>; a freshly reset deck is therefore a parameter of \<open>startHand\<close>
  below.
\<close>

definition deal :: "Card list \<Rightarrow> nat \<Rightarrow> error + (Card list \<times> Card list)" where
  "deal cards count' =
     (if count' > length cards then Inl (Error ''Cannot deal cards'')
      else Inr (take count' cards, drop count' cards))"

definition burn :: "Card list \<Rightarrow> error + Card list" where
  "burn cards =
     (if length cards = 0 then Inl (Error ''Cannot burn card from empty deck'')
      else Inr (tl cards))"

definition peek :: "Card list \<Rightarrow> nat \<Rightarrow> Card list" where
  "peek cards count' = take count' cards"

section \<open>PotManager\<close>

text \<open>
  A JavaScript \<^verbatim>\<open>Map\<close> is an association list with distinct keys in insertion order:
  \<^verbatim>\<open>set\<close> on a key already present replaces the value in place, on a new key appends.
\<close>

fun mapSet :: "'k \<Rightarrow> 'v \<Rightarrow> ('k \<times> 'v) list \<Rightarrow> ('k \<times> 'v) list" where
  "mapSet k v [] = [(k, v)]"
| "mapSet k v ((k', v') # m) = (if k' = k then (k, v) # m else (k', v') # mapSet k v m)"

text \<open>\<^verbatim>\<open>map.get(key) || 0\<close>\<close>

definition getOr0 :: "('k \<times> int) list \<Rightarrow> 'k \<Rightarrow> int" where
  "getOr0 m k = (case map_of m k of None \<Rightarrow> 0 | Some v \<Rightarrow> v)"

record Pot =
  amount :: int
  eligiblePlayers :: "string list"
  isMainPot :: bool

definition addContribution :: "string \<Rightarrow> int \<Rightarrow> (string \<times> int) list \<Rightarrow> (string \<times> int) list" where
  "addContribution playerId amt contributions =
     mapSet playerId (getOr0 contributions playerId + amt) contributions"

text \<open>
  The loop of \<^verbatim>\<open>calculatePots\<close> over the sorted contributions; \<open>remaining\<close> is
  \<^verbatim>\<open>remainingContributions\<close>, \<open>previousLevel\<close> and \<open>pots\<close> are the loop's variables.
\<close>

fun potsLoop ::
  "(string \<times> int) list \<Rightarrow> (string \<times> int) list \<Rightarrow> Pot list \<Rightarrow> int \<Rightarrow> Pot list" where
  "potsLoop remaining [] pots previousLevel = pots"
| "potsLoop remaining ((currentPlayerId, currentAmount) # rest) pots previousLevel =
     (if currentAmount \<le> previousLevel then potsLoop remaining rest pots previousLevel
      else
        let levelDiff = currentAmount - previousLevel;
            eligible = map fst (filter (\<lambda>(playerId, a). a \<ge> currentAmount) remaining);
            potAmount = levelDiff * int (length eligible);
            pots' = (if potAmount > 0
                     then pots @ [\<lparr>amount = potAmount, eligiblePlayers = eligible,
                                   isMainPot = (length pots = 0)\<rparr>]
                     else pots)
        in potsLoop remaining rest pots' currentAmount)"

definition calculatePots :: "(string \<times> int) list \<Rightarrow> string list \<Rightarrow> Pot list" where
  "calculatePots contributions activePlayers =
     (if length contributions = 0 then []
      else
        let sorted = sort_key snd
                       (filter (\<lambda>(playerId, a). playerId \<in> set activePlayers) contributions)
        in potsLoop sorted sorted [] 0)"

definition getTotalPot :: "(string \<times> int) list \<Rightarrow> int" where
  "getTotalPot contributions = fold (\<lambda>(playerId, a) total. total + a) contributions 0"

definition getPlayerContribution :: "(string \<times> int) list \<Rightarrow> string \<Rightarrow> int" where
  "getPlayerContribution contributions playerId = getOr0 contributions playerId"

text \<open>
  The remainder operator \<^verbatim>\<open>%\<close> of JavaScript truncates towards zero: the result has the
  sign of the dividend. \<^verbatim>\<open>Math.floor(a / n)\<close> is \<open>a div n\<close>.
\<close>

definition jsRem :: "int \<Rightarrow> int \<Rightarrow> int" where
  "jsRem a n = (if a < 0 then - ((- a) mod n) else a mod n)"

text \<open>
  One pot of \<^verbatim>\<open>distributePots\<close>. \<open>eligibleWinners\<close> are the entries of the winners map
  whose player is eligible for the pot, sorted (stably) by descending hand value;
  \<open>tiedWinners\<close> are those among them that share the top value. The tied winners are
  visited with their index, and index 0 receives the whole remainder. \<open>payouts\<close> is the
  map being built; a pot without eligible winner is skipped.
\<close>

definition eligibleWinners :: "(string \<times> int) list \<Rightarrow> Pot \<Rightarrow> (string \<times> int) list" where
  "eligibleWinners winners pot =
     sort_key (\<lambda>(playerId, v). - v)
       (filter (\<lambda>(playerId, v). playerId \<in> set (eligiblePlayers pot)) winners)"

definition tiedWinners :: "(string \<times> int) list \<Rightarrow> Pot \<Rightarrow> (string \<times> int) list" where
  "tiedWinners winners pot =
     (case eligibleWinners winners pot of
        [] \<Rightarrow> []
      | (topId, topHandValue) # _ \<Rightarrow>
          filter (\<lambda>(playerId, v). v = topHandValue) (eligibleWinners winners pot))"

definition payTied :: "int \<Rightarrow> int \<Rightarrow> nat \<times> string \<times> int \<Rightarrow> (string \<times> int) list \<Rightarrow> (string \<times> int) list" where
  "payTied splitAmount remainder = (\<lambda>(index, (playerId, v)) payouts.
     mapSet playerId
       (getOr0 payouts playerId + (splitAmount + (if index = 0 then remainder else 0)))
       payouts)"

definition distributePot :: "(string \<times> int) list \<Rightarrow> Pot \<Rightarrow> (string \<times> int) list \<Rightarrow> (string \<times> int) list" where
  "distributePot winners pot payouts =
     (if length (eligibleWinners winners pot) = 0 then payouts
      else
        let tied = tiedWinners winners pot;
            splitAmount = amount pot div int (length tied);
            remainder = jsRem (amount pot) (int (length tied))
        in fold (payTied splitAmount remainder) (enumerate 0 tied) payouts)"

definition distributePots :: "Pot list \<Rightarrow> (string \<times> int) list \<Rightarrow> (string \<times> int) list" where
  "distributePots pots winners = fold (distributePot winners) pots []"

section \<open>StateSerializer\<close>

text \<open>
  The fields of \<^verbatim>\<open>GodState\<close> carry the suffix \<open>_g\<close> and those of \<^verbatim>\<open>PlayerView\<close> the
  suffix \<open>_v\<close>, since both interfaces (and the table itself) use the same field names.
  \<^verbatim>\<open>null\<close> is \<open>None\<close>.
\<close>

record GodPlayer =
  steamId_g :: string
  position_g :: int
  chips_g :: int
  holeCards_g :: "Card list"
  currentBet_g :: int
  hasFolded_g :: bool
  isAllIn_g :: bool
  hasActed_g :: bool
  handRank_g :: "string option"

record GodState =
  tableId_g :: string
  sequenceId_g :: nat
  state_g :: string
  deck_g :: "Card list"
  communityCards_g :: "Card list"
  pot_g :: int
  currentBetT_g :: int
  dealerPosition_g :: nat
  currentPlayerIndex_g :: nat
  players_g :: "GodPlayer list"

record ViewPlayer =
  steamId_v :: string
  position_v :: int
  chips_v :: int
  holeCards_v :: "Card list option"
  currentBet_v :: int
  hasFolded_v :: bool
  isAllIn_v :: bool
  hasActed_v :: bool
  handRank_v :: "string option"

record PlayerView =
  tableId_v :: string
  sequenceId_v :: nat
  state_v :: string
  deck_v :: "Card list option"
  communityCards_v :: "Card list"
  pot_v :: int
  currentBetT_v :: int
  dealerPosition_v :: nat
  currentPlayerIndex_v :: nat
  players_v :: "ViewPlayer list"

definition serializeForPlayer :: "GodState \<Rightarrow> string \<Rightarrow> PlayerView" where
  "serializeForPlayer godState targetSteamId =
     \<lparr>tableId_v = tableId_g godState,
      sequenceId_v = sequenceId_g godState,
      state_v = state_g godState,
      deck_v = None,
      communityCards_v = communityCards_g godState,
      pot_v = pot_g godState,
      currentBetT_v = currentBetT_g godState,
      dealerPosition_v = dealerPosition_g godState,
      currentPlayerIndex_v = currentPlayerIndex_g godState,
      players_v = map (\<lambda>player.
         \<lparr>steamId_v = steamId_g player,
          position_v = position_g player,
          chips_v = chips_g player,
          holeCards_v = (if steamId_g player = targetSteamId
                         then Some (holeCards_g player) else None),
          currentBet_v = currentBet_g player,
          hasFolded_v = hasFolded_g player,
          isAllIn_v = isAllIn_g player,
          hasActed_v = hasActed_g player,
          handRank_v = handRank_g player\<rparr>) (players_g godState)\<rparr>"

definition serializeForShowdown :: "GodState \<Rightarrow> string list \<Rightarrow> PlayerView" where
  "serializeForShowdown godState activePlayers =
     \<lparr>tableId_v = tableId_g godState,
      sequenceId_v = sequenceId_g godState,
      state_v = state_g godState,
      deck_v = None,
      communityCards_v = communityCards_g godState,
      pot_v = pot_g godState,
      currentBetT_v = currentBetT_g godState,
      dealerPosition_v = dealerPosition_g godState,
      currentPlayerIndex_v = currentPlayerIndex_g godState,
      players_v = map (\<lambda>player.
         \<lparr>steamId_v = steamId_g player,
          position_v = position_g player,
          chips_v = chips_g player,
          holeCards_v = (if steamId_g player \<in> set activePlayers
                         then Some (holeCards_g player) else None),
          currentBet_v = currentBet_g player,
          hasFolded_v = hasFolded_g player,
          isAllIn_v = isAllIn_g player,
          hasActed_v = hasActed_g player,
          handRank_v = handRank_g player\<rparr>) (players_g godState)\<rparr>"


section \<open>TableInstance\<close>

datatype GameState =
    LOBBY_INITIALIZING | WAITING_FOR_PLAYERS | GAME_STARTING | DEALING
  | PRE_FLOP | FLOP | TURN | RIVER
  | SHOWDOWN_REVEAL | PAYOUT_ANIMATION | SOCIAL_BANTER

datatype ActionType = FOLD | CHECK | CALL | RAISE | ALL_IN

record TablePlayer =
  steamId :: string
  username :: string
  position :: int
  chips :: int
  holeCards :: "Card list"
  currentBet :: int
  hasFolded :: bool
  isAllIn :: bool
  hasActed :: bool
  isReady :: bool
  handRank :: "string option"
  handValue :: "int option"

text \<open>
  The mutable fields of a \<^verbatim>\<open>TableInstance\<close>. \<open>players\<close> is the
  \<^verbatim>\<open>Map<number, TablePlayer>\<close> in insertion order, each player stored under the key
  \<open>position\<close>; \<^verbatim>\<open>Array.from(this.players.values())\<close> is the list itself. \<open>deck\<close> is the
  card array of the \<^verbatim>\<open>Deck\<close>, \<open>potManager\<close> the contribution map of the
  \<^verbatim>\<open>PotManager\<close>, and \<open>currentBetT\<close> the table's \<^verbatim>\<open>currentBet\<close> (the players have a
  field of the same name). Timers and the state broadcast are outside the model; the
  calls of \<^verbatim>\<open>onError\<close> and \<^verbatim>\<open>onPlayerAction\<close> are returned as events.
\<close>

record TableInstance =
  tableId :: string
  deck :: "Card list"
  potManager :: "(string \<times> int) list"
  gameState :: GameState
  sequenceId :: nat
  players :: "TablePlayer list"
  communityCards :: "Card list"
  currentBetT :: int
  dealerPosition :: nat
  currentPlayerIndex :: nat
  smallBlind :: int
  bigBlind :: int

datatype Event =
    OnError string string string                    \<comment> \<open>recipient, code, message\<close>
  | OnPlayerAction string ActionType "int option"   \<comment> \<open>broadcast to the table\<close>

definition maxPlayers :: nat where
  "maxPlayers = 6"

definition minPlayers :: nat where
  "minPlayers = 2"

definition transitionTo :: "GameState \<Rightarrow> TableInstance \<Rightarrow> TableInstance" where
  "transitionTo newState t = t\<lparr>gameState := newState, sequenceId := sequenceId t + 1\<rparr>"

definition isInBettingRound :: "TableInstance \<Rightarrow> bool" where
  "isInBettingRound t = (gameState t \<in> set [PRE_FLOP, FLOP, TURN, RIVER])"

definition newPlayer :: "string \<Rightarrow> string \<Rightarrow> int \<Rightarrow> int \<Rightarrow> TablePlayer" where
  "newPlayer sid uname pos buyIn =
     \<lparr>steamId = sid, username = uname, position = pos, chips = buyIn, holeCards = [],
      currentBet = 0, hasFolded = False, isAllIn = False, hasActed = False,
      isReady = False, handRank = None, handValue = None\<rparr>"

definition addPlayer ::
  "TableInstance \<Rightarrow> string \<Rightarrow> string \<Rightarrow> int \<Rightarrow> int \<Rightarrow> bool \<times> TableInstance" where
  "addPlayer t sid uname pos buyIn =
     (if length (players t) \<ge> maxPlayers then (False, t)
      else if list_ex (\<lambda>p. position p = pos) (players t) then (False, t)
      else if gameState t \<noteq> LOBBY_INITIALIZING \<and> gameState t \<noteq> WAITING_FOR_PLAYERS
              \<and> gameState t \<noteq> SOCIAL_BANTER then (False, t)
      else
        let t1 = t\<lparr>players := players t @ [newPlayer sid uname pos buyIn]\<rparr>;
            t2 = (if gameState t1 = LOBBY_INITIALIZING
                  then transitionTo WAITING_FOR_PLAYERS t1 else t1)
        in (True, t2))"

text \<open>
  The handler of \<^verbatim>\<open>REQ_SIT\<close> in \<^verbatim>\<open>app.ts\<close> (for an authenticated socket with a session
  and an existing table): the error code it emits to the sender when \<^verbatim>\<open>addPlayer\<close>
  returns \<^verbatim>\<open>false\<close>.
\<close>

datatype ErrorCode =
    AUTH_FAILED | INVALID_TICKET | TABLE_FULL | SEAT_TAKEN | INVALID_ACTION
  | NOT_YOUR_TURN | INSUFFICIENT_CHIPS | ALREADY_IN_TABLE | TABLE_NOT_FOUND

definition reqSit ::
  "TableInstance \<Rightarrow> string \<Rightarrow> string \<Rightarrow> int \<Rightarrow> int \<Rightarrow> ErrorCode option \<times> TableInstance" where
  "reqSit t sid uname seatIndex buyIn =
     (case addPlayer t sid uname seatIndex buyIn of
        (success, t') \<Rightarrow> if \<not> success then (Some SEAT_TAKEN, t') else (None, t'))"

text \<open>
  Players are objects mutated through references. \<open>updateFirst\<close> changes the first
  element that satisfies the test: \<^verbatim>\<open>getPlayerBySteamId\<close> returns the first player
  with the given identifier, and every later write goes to that object.
\<close>

fun updateFirst :: "('a \<Rightarrow> bool) \<Rightarrow> ('a \<Rightarrow> 'a) \<Rightarrow> 'a list \<Rightarrow> 'a list" where
  "updateFirst P f [] = []"
| "updateFirst P f (x # xs) = (if P x then f x # xs else x # updateFirst P f xs)"

definition getPlayerBySteamId :: "TableInstance \<Rightarrow> string \<Rightarrow> TablePlayer option" where
  "getPlayerBySteamId t sid = find (\<lambda>p. steamId p = sid) (players t)"

definition updatePlayer ::
  "string \<Rightarrow> (TablePlayer \<Rightarrow> TablePlayer) \<Rightarrow> TableInstance \<Rightarrow> TableInstance" where
  "updatePlayer sid f t = t\<lparr>players := updateFirst (\<lambda>p. steamId p = sid) f (players t)\<rparr>"

definition getCurrentPlayer :: "TableInstance \<Rightarrow> TablePlayer option" where
  "getCurrentPlayer t =
     (if currentPlayerIndex t < length (players t)
      then Some (players t ! currentPlayerIndex t) else None)"

definition isActive :: "TablePlayer \<Rightarrow> bool" where
  "isActive p = (chips p > 0 \<or> currentBet p > 0)"

definition getActivePlayers :: "TableInstance \<Rightarrow> TablePlayer list" where
  "getActivePlayers t = filter isActive (players t)"

subsection \<open>Starting a hand\<close>

text \<open>
  \<^verbatim>\<open>dealHoleCards\<close>: two cards from the top of the deck to each active player, in the
  order of the player array; \<^verbatim>\<open>deal\<close> throws when the deck runs out.
\<close>

fun dealHoleLoop :: "Card list \<Rightarrow> TablePlayer list \<Rightarrow> error + (Card list \<times> TablePlayer list)" where
  "dealHoleLoop d [] = Inr (d, [])"
| "dealHoleLoop d (p # ps) =
     (if isActive p then
        (case deal d 2 of
           Inl e \<Rightarrow> Inl e
         | Inr (dealt, d') \<Rightarrow>
             (case dealHoleLoop d' ps of
                Inl e \<Rightarrow> Inl e
              | Inr (d'', ps') \<Rightarrow> Inr (d'', p\<lparr>holeCards := dealt\<rparr> # ps')))
      else
        (case dealHoleLoop d ps of
           Inl e \<Rightarrow> Inl e
         | Inr (d'', ps') \<Rightarrow> Inr (d'', p # ps')))"

definition dealHoleCards :: "TableInstance \<Rightarrow> error + TableInstance" where
  "dealHoleCards t =
     (case dealHoleLoop (deck t) (players t) of
        Inl e \<Rightarrow> Inl e
      | Inr (d, ps) \<Rightarrow> Inr (t\<lparr>deck := d, players := ps\<rparr>))"

text \<open>
  \<^verbatim>\<open>postBlinds\<close>. The two indices are taken in the player array (insertion order), one
  and two places after \<open>dealerPosition\<close>, whatever the number of players.
\<close>

definition postBlind :: "int \<Rightarrow> TablePlayer \<Rightarrow> TablePlayer" where
  "postBlind blind p =
     (let amt = min blind (chips p);
          p1 = p\<lparr>chips := chips p - amt, currentBet := amt\<rparr>
      in if chips p1 = 0 then p1\<lparr>isAllIn := True\<rparr> else p1)"

definition postBlinds :: "TableInstance \<Rightarrow> TableInstance" where
  "postBlinds t =
     (let playerArray = players t in
      if length playerArray < 2 then t
      else
        let sbIndex = (dealerPosition t + 1) mod length playerArray;
            bbIndex = (dealerPosition t + 2) mod length playerArray;
            sbPlayer = playerArray ! sbIndex;
            sbAmount = min (smallBlind t) (chips sbPlayer);
            ps1 = playerArray[sbIndex := postBlind (smallBlind t) sbPlayer];
            pm1 = addContribution (steamId sbPlayer) sbAmount (potManager t);
            bbPlayer = ps1 ! bbIndex;
            bbAmount = min (bigBlind t) (chips bbPlayer);
            ps2 = ps1[bbIndex := postBlind (bigBlind t) bbPlayer];
            pm2 = addContribution (steamId bbPlayer) bbAmount pm1
        in t\<lparr>players := ps2, potManager := pm2,
              currentPlayerIndex := (bbIndex + 1) mod length playerArray\<rparr>)"

definition startBettingRound :: "TableInstance \<Rightarrow> TableInstance" where
  "startBettingRound t = t\<lparr>players := map (\<lambda>p. p\<lparr>hasActed := False\<rparr>) (players t)\<rparr>"

definition resetPlayer :: "TablePlayer \<Rightarrow> TablePlayer" where
  "resetPlayer p =
     p\<lparr>holeCards := [], currentBet := 0, hasFolded := False, isAllIn := False,
       hasActed := False, isReady := False, handRank := None, handValue := None\<rparr>"

text \<open>\<^verbatim>\<open>startHand\<close>; \<open>shuffled\<close> is the deck as \<^verbatim>\<open>this.deck.reset()\<close> leaves it.\<close>

definition startHand :: "TableInstance \<Rightarrow> Card list \<Rightarrow> error + TableInstance" where
  "startHand t shuffled =
     (let t1 = t\<lparr>deck := shuffled, potManager := [], communityCards := [],
                 currentBetT := bigBlind t, players := map resetPlayer (players t)\<rparr>;
          t2 = transitionTo DEALING t1
      in case dealHoleCards t2 of
           Inl e \<Rightarrow> Inl e
         | Inr t3 \<Rightarrow> Inr (startBettingRound (transitionTo PRE_FLOP (postBlinds t3))))"


subsection \<open>The five actions\<close>

definition stillIn :: "TablePlayer \<Rightarrow> bool" where
  "stillIn p = (isActive p \<and> \<not> hasFolded p)"

text \<open>
  \<^verbatim>\<open>handleSingleWinner(activePlayers[0])\<close>: the winner is the first active player who
  has not folded; the pot manager is not reset here (only \<^verbatim>\<open>startHand\<close> resets it).
\<close>

definition handleSingleWinner :: "TableInstance \<Rightarrow> TableInstance" where
  "handleSingleWinner t =
     (let pot = getTotalPot (potManager t);
          t1 = t\<lparr>players := updateFirst stillIn (\<lambda>w. w\<lparr>chips := chips w + pot\<rparr>) (players t)\<rparr>
      in transitionTo PAYOUT_ANIMATION t1)"

definition handlePlayerFold :: "TableInstance \<Rightarrow> string \<Rightarrow> bool \<times> TableInstance" where
  "handlePlayerFold t sid =
     (case getPlayerBySteamId t sid of
        None \<Rightarrow> (False, t)
      | Some player \<Rightarrow>
          let t1 = updatePlayer sid (\<lambda>p. p\<lparr>hasFolded := True\<rparr>) t;
              activePlayers = filter (\<lambda>p. \<not> hasFolded p) (getActivePlayers t1)
          in if length activePlayers = 1 then (True, handleSingleWinner t1) else (True, t1))"

definition handlePlayerCheck :: "TableInstance \<Rightarrow> string \<Rightarrow> bool \<times> TableInstance" where
  "handlePlayerCheck t sid =
     (case getPlayerBySteamId t sid of
        None \<Rightarrow> (False, t)
      | Some player \<Rightarrow>
          if currentBet player < currentBetT t then (False, t) else (True, t))"

definition handlePlayerCall :: "TableInstance \<Rightarrow> string \<Rightarrow> bool \<times> TableInstance" where
  "handlePlayerCall t sid =
     (case getPlayerBySteamId t sid of
        None \<Rightarrow> (False, t)
      | Some player \<Rightarrow>
          let callAmount = currentBetT t - currentBet player in
          if callAmount \<le> 0 then (False, t)
          else
            let actualAmount = min callAmount (chips player);
                t1 = updatePlayer sid
                       (\<lambda>p. p\<lparr>chips := chips p - actualAmount,
                              currentBet := currentBet p + actualAmount\<rparr>) t;
                t2 = t1\<lparr>potManager :=
                          addContribution (steamId player) actualAmount (potManager t1)\<rparr>;
                t3 = updatePlayer sid
                       (\<lambda>p. if chips p = 0 then p\<lparr>isAllIn := True\<rparr> else p) t2
            in (True, t3))"

text \<open>
  \<^verbatim>\<open>p.hasActed = false\<close> for every other player who is neither folded nor all-in.
\<close>

definition reopenAction :: "string \<Rightarrow> TableInstance \<Rightarrow> TableInstance" where
  "reopenAction sid t =
     t\<lparr>players := map (\<lambda>p. if steamId p \<noteq> sid \<and> \<not> hasFolded p \<and> \<not> isAllIn p
                            then p\<lparr>hasActed := False\<rparr> else p) (players t)\<rparr>"

text \<open>
  \<^verbatim>\<open>handlePlayerRaise\<close>; \<open>amt\<close> is the optional \<^verbatim>\<open>amount\<close> (\<open>raiseTo\<close> when present), and
  \<^verbatim>\<open>!amount\<close> holds for \<^verbatim>\<open>undefined\<close> and for 0. The least increment is the table's big blind.
\<close>

definition handlePlayerRaise ::
  "TableInstance \<Rightarrow> string \<Rightarrow> int option \<Rightarrow> bool \<times> TableInstance" where
  "handlePlayerRaise t sid amt =
     (case getPlayerBySteamId t sid of
        None \<Rightarrow> (False, t)
      | Some player \<Rightarrow>
          (case amt of
             None \<Rightarrow> (False, t)
           | Some raiseTo \<Rightarrow>
               if raiseTo = 0 then (False, t)
               else if raiseTo \<le> currentBetT t \<or> raiseTo - currentBetT t < bigBlind t
               then (False, t)
               else
                 let raiseAmount = raiseTo - currentBet player in
                 if raiseAmount > chips player then (False, t)
                 else
                   let t1 = updatePlayer sid
                              (\<lambda>p. p\<lparr>chips := chips p - raiseAmount,
                                     currentBet := raiseTo\<rparr>) t;
                       t2 = t1\<lparr>currentBetT := raiseTo,
                               potManager :=
                                 addContribution (steamId player) raiseAmount (potManager t1)\<rparr>;
                       t3 = reopenAction sid t2;
                       t4 = updatePlayer sid
                              (\<lambda>p. if chips p = 0 then p\<lparr>isAllIn := True\<rparr> else p) t3
                   in (True, t4)))"

definition handlePlayerAllIn :: "TableInstance \<Rightarrow> string \<Rightarrow> bool \<times> TableInstance" where
  "handlePlayerAllIn t sid =
     (case getPlayerBySteamId t sid of
        None \<Rightarrow> (False, t)
      | Some player \<Rightarrow>
          let allInAmount = chips player in
          if allInAmount = 0 then (False, t)
          else
            let t1 = updatePlayer sid
                       (\<lambda>p. p\<lparr>chips := 0, currentBet := currentBet p + allInAmount,
                              isAllIn := True\<rparr>) t;
                t2 = t1\<lparr>potManager :=
                          addContribution (steamId player) allInAmount (potManager t1)\<rparr>
            in if currentBet player + allInAmount > currentBetT t2
               then (True, reopenAction sid (t2\<lparr>currentBetT := currentBet player + allInAmount\<rparr>))
               else (True, t2))"

subsection \<open>Closing a betting round\<close>

definition isBettingRoundComplete :: "TableInstance \<Rightarrow> bool" where
  "isBettingRoundComplete t =
     (let activePlayers = filter (\<lambda>p. \<not> hasFolded p) (getActivePlayers t) in
      if length activePlayers = 0 then True
      else
        let playersWhoCanAct = filter (\<lambda>p. \<not> isAllIn p) activePlayers in
        if length playersWhoCanAct = 0 then True
        else list_all (\<lambda>p. hasActed p \<and> currentBet p = currentBetT t) playersWhoCanAct)"

definition newStreet :: "GameState \<Rightarrow> TableInstance \<Rightarrow> TableInstance" where
  "newStreet st t =
     (let t1 = transitionTo st t
      in t1\<lparr>currentBetT := 0, players := map (\<lambda>p. p\<lparr>currentBet := 0\<rparr>) (players t1)\<rparr>)"

text \<open>
  \<^verbatim>\<open>burn()\<close> followed by \<^verbatim>\<open>communityCards.push(...deal(n))\<close>.
\<close>

definition burnAndDeal :: "nat \<Rightarrow> TableInstance \<Rightarrow> error + TableInstance" where
  "burnAndDeal n t =
     (case burn (deck t) of
        Inl e \<Rightarrow> Inl e
      | Inr d1 \<Rightarrow>
          (case deal d1 n of
             Inl e \<Rightarrow> Inl e
           | Inr (dealt, d2) \<Rightarrow>
               Inr (t\<lparr>deck := d2, communityCards := communityCards t @ dealt\<rparr>)))"

text \<open>
  \<^verbatim>\<open>dealFlop\<close> also moves the acting index to one place after the dealer position,
  modulo \<^verbatim>\<open>this.players.size\<close> (at least 1 whenever an action has been accepted);
  \<^verbatim>\<open>dealTurn\<close> and \<^verbatim>\<open>dealRiver\<close> leave it where the last action left it.
\<close>

definition dealFlop :: "TableInstance \<Rightarrow> error + TableInstance" where
  "dealFlop t =
     (case burnAndDeal 3 t of
        Inl e \<Rightarrow> Inl e
      | Inr t1 \<Rightarrow>
          let t2 = newStreet FLOP t1;
              t3 = t2\<lparr>currentPlayerIndex := (dealerPosition t2 + 1) mod length (players t2)\<rparr>
          in Inr (startBettingRound t3))"

definition dealTurn :: "TableInstance \<Rightarrow> error + TableInstance" where
  "dealTurn t =
     (case burnAndDeal 1 t of
        Inl e \<Rightarrow> Inl e
      | Inr t1 \<Rightarrow> Inr (startBettingRound (newStreet TURN t1)))"

definition dealRiver :: "TableInstance \<Rightarrow> error + TableInstance" where
  "dealRiver t =
     (case burnAndDeal 1 t of
        Inl e \<Rightarrow> Inl e
      | Inr t1 \<Rightarrow> Inr (startBettingRound (newStreet RIVER t1)))"

text \<open>
  The loop of \<^verbatim>\<open>startShowdown\<close> over the active players who have not folded, in array
  order: each hand is evaluated (which throws unless hole and community cards are seven),
  the player's \<^verbatim>\<open>handRank\<close> and \<^verbatim>\<open>handValue\<close> are set and the result is stored in
  \<^verbatim>\<open>handResults\<close> under the player's identifier.
\<close>

fun showdownLoop ::
  "Card list \<Rightarrow> TablePlayer list \<Rightarrow> (string \<times> HandResult) list
   \<Rightarrow> error + (TablePlayer list \<times> (string \<times> HandResult) list)" where
  "showdownLoop community [] handResults = Inr ([], handResults)"
| "showdownLoop community (p # ps) handResults =
     (if stillIn p then
        (case evaluateHand (holeCards p @ community) of
           Inl e \<Rightarrow> Inl e
         | Inr result \<Rightarrow>
             (case showdownLoop community ps (mapSet (steamId p) result handResults) of
                Inl e \<Rightarrow> Inl e
              | Inr (ps', hr') \<Rightarrow>
                  Inr (p\<lparr>handRank := Some (description result),
                         handValue := Some (hr_value result)\<rparr> # ps', hr')))
      else
        (case showdownLoop community ps handResults of
           Inl e \<Rightarrow> Inl e
         | Inr (ps', hr') \<Rightarrow> Inr (p # ps', hr')))"

definition calculatePayouts :: "TableInstance \<Rightarrow> (string \<times> HandResult) list \<Rightarrow> TableInstance" where
  "calculatePayouts t handResults =
     (let activePlayers = map steamId (filter (\<lambda>p. \<not> hasFolded p) (getActivePlayers t));
          pots = calculatePots (potManager t) activePlayers;
          winners = map (\<lambda>(sid, result). (sid, hr_value result)) handResults;
          payouts = distributePots pots winners;
          t1 = fold (\<lambda>(sid, amt). updatePlayer sid (\<lambda>p. p\<lparr>chips := chips p + amt\<rparr>)) payouts t
      in transitionTo PAYOUT_ANIMATION t1)"

definition startShowdown :: "TableInstance \<Rightarrow> error + TableInstance" where
  "startShowdown t =
     (let t1 = transitionTo SHOWDOWN_REVEAL t in
      case showdownLoop (communityCards t1) (players t1) [] of
        Inl e \<Rightarrow> Inl e
      | Inr (ps, handResults) \<Rightarrow> Inr (calculatePayouts (t1\<lparr>players := ps\<rparr>) handResults))"

definition endBettingRound :: "TableInstance \<Rightarrow> error + TableInstance" where
  "endBettingRound t =
     (case gameState t of
        PRE_FLOP \<Rightarrow> dealFlop t
      | FLOP \<Rightarrow> dealTurn t
      | TURN \<Rightarrow> dealRiver t
      | RIVER \<Rightarrow> startShowdown t
      | _ \<Rightarrow> Inr t)"

text \<open>
  The \<^verbatim>\<open>do ... while\<close> of \<^verbatim>\<open>advanceToNextPlayer\<close>: \<open>idx\<close> is \<^verbatim>\<open>currentPlayerIndex\<close> and
  \<open>attempts\<close> the counter. The player array is not empty when an action has been
  accepted, so the index stays inside it.
\<close>

function advanceLoop :: "TablePlayer list \<Rightarrow> nat \<Rightarrow> nat \<Rightarrow> nat" where
  "advanceLoop playerArray idx attempts =
     (if attempts + 1 < length playerArray
         \<and> (hasFolded (playerArray ! ((idx + 1) mod length playerArray))
            \<or> isAllIn (playerArray ! ((idx + 1) mod length playerArray)))
      then advanceLoop playerArray ((idx + 1) mod length playerArray) (attempts + 1)
      else (idx + 1) mod length playerArray)"
  by pat_completeness auto
termination
  by (relation "measure (\<lambda>(playerArray, idx, attempts). length playerArray - attempts)") auto

definition advanceToNextPlayer :: "TableInstance \<Rightarrow> TableInstance" where
  "advanceToNextPlayer t =
     t\<lparr>currentPlayerIndex := advanceLoop (players t) (currentPlayerIndex t) 0\<rparr>"

subsection \<open>Validating and applying an action\<close>

definition dispatch ::
  "TableInstance \<Rightarrow> string \<Rightarrow> ActionType \<Rightarrow> int option \<Rightarrow> bool \<times> TableInstance" where
  "dispatch t sid action amt =
     (case action of
        FOLD \<Rightarrow> handlePlayerFold t sid
      | CHECK \<Rightarrow> handlePlayerCheck t sid
      | CALL \<Rightarrow> handlePlayerCall t sid
      | RAISE \<Rightarrow> handlePlayerRaise t sid amt
      | ALL_IN \<Rightarrow> handlePlayerAllIn t sid)"

text \<open>
  \<^verbatim>\<open>handlePlayerAction\<close> returns the boolean, the events it raised and the table.
  \<open>Inl\<close> is an exception thrown while the round is being closed (deck exhausted, or a
  showdown hand that is not seven cards); the exception leaves the method, and the
  half-updated table is not followed further.
\<close>

definition handlePlayerAction ::
  "TableInstance \<Rightarrow> string \<Rightarrow> ActionType \<Rightarrow> int option
   \<Rightarrow> error + (bool \<times> Event list \<times> TableInstance)" where
  "handlePlayerAction t sid action amt =
     (case getCurrentPlayer t of
        None \<Rightarrow> Inr (False, [OnError sid ''NOT_YOUR_TURN'' ''It is not your turn''], t)
      | Some currentPlayer \<Rightarrow>
          if steamId currentPlayer \<noteq> sid then
            Inr (False, [OnError sid ''NOT_YOUR_TURN'' ''It is not your turn''], t)
          else if hasFolded currentPlayer \<or> isAllIn currentPlayer then Inr (False, [], t)
          else if \<not> isInBettingRound t then Inr (False, [], t)
          else
            (case dispatch t sid action amt of
               (success, t1) \<Rightarrow>
                 if \<not> success then
                   Inr (False, [OnError sid ''INVALID_ACTION'' ''Invalid action''], t1)
                 else
                   let i = currentPlayerIndex t;
                       t2 = t1\<lparr>players := (players t1)[i := (players t1 ! i)\<lparr>hasActed := True\<rparr>],
                               sequenceId := sequenceId t1 + 1\<rparr>
                   in if isBettingRoundComplete t2 then
                        (case endBettingRound t2 of
                           Inl e \<Rightarrow> Inl e
                         | Inr t3 \<Rightarrow> Inr (True, [OnPlayerAction sid action amt], t3))
                      else
                        Inr (True, [OnPlayerAction sid action amt], advanceToNextPlayer t2)))"

text \<open>
  A sequence of action requests, each given to \<^verbatim>\<open>handlePlayerAction\<close> in turn, whether
  it is accepted or rejected.
\<close>

fun playActions ::
  "TableInstance \<Rightarrow> (string \<times> ActionType \<times> int option) list \<Rightarrow> error + TableInstance" where
  "playActions t [] = Inr t"
| "playActions t ((sid, action, amt) # rest) =
     (case handlePlayerAction t sid action amt of
        Inl e \<Rightarrow> Inl e
      | Inr (accepted, events, t') \<Rightarrow> playActions t' rest)"

definition chipsInPlay :: "TableInstance \<Rightarrow> int" where
  "chipsInPlay t = sum_list (map chips (players t)) + getTotalPot (potManager t)"


section \<open>Reference notions and sample inputs\<close>

subsection \<open>Poker strength of five cards, as the specification words it\<close>

text \<open>
  The specification's score layering: the category ordinal on top, then the
  category-specific tie-break (primary group rank, secondary group rank, remaining
  kickers in descending rank), with the wheel A-2-3-4-5 a straight whose high card is the
  5. \<open>spec_score5\<close> packs category and tie-break ranks into one number in base 15;
  \<open>spec_score7\<close> is the best of the 21 five-card subsets. These follow the
  specification's words, not the source, and serve only to say which of two hands is the
  better one.
\<close>

definition spec_groups :: "int list \<Rightarrow> int list" where
  "spec_groups vals =
     rev (sort_key (\<lambda>v. int (count_list vals v) * 15 + v) (remdups vals))"

definition spec_isWheel :: "int list \<Rightarrow> bool" where
  "spec_isWheel vals = (sort vals = [2, 3, 4, 5, 14])"

definition spec_isStraight :: "int list \<Rightarrow> bool" where
  "spec_isStraight vals =
     (length vals = 5
      \<and> (spec_isWheel vals \<or> sort vals = map (\<lambda>i. fold min vals 14 + int i) [0..<5]))"

definition spec_straightHigh :: "int list \<Rightarrow> int" where
  "spec_straightHigh vals = (if spec_isWheel vals then 5 else fold max vals 0)"

definition spec_isFlush :: "Card list \<Rightarrow> bool" where
  "spec_isFlush cards = (length cards = 5 \<and> length (remdups (map suit cards)) = 1)"

definition spec_category :: "Card list \<Rightarrow> int" where
  "spec_category cards =
     (let vals = map (RANK_VALUES \<circ> rank) cards;
          counts = map (count_list vals) (spec_groups vals);
          straight = spec_isStraight vals;
          flush = spec_isFlush cards
      in if straight \<and> flush \<and> spec_straightHigh vals = 14 then 9
         else if straight \<and> flush then 8
         else if take 1 counts = [4] then 7
         else if take 2 counts = [3, 2] then 6
         else if flush then 5
         else if straight then 4
         else if take 1 counts = [3] then 3
         else if take 2 counts = [2, 2] then 2
         else if take 1 counts = [2] then 1
         else 0)"

definition spec_tiebreak :: "Card list \<Rightarrow> int list" where
  "spec_tiebreak cards =
     (let vals = map (RANK_VALUES \<circ> rank) cards
      in if spec_isStraight vals then [spec_straightHigh vals] else spec_groups vals)"

definition spec_score5 :: "Card list \<Rightarrow> int" where
  "spec_score5 cards =
     fold (\<lambda>d acc. acc * 15 + d) (take 5 (spec_tiebreak cards @ replicate 5 0))
       (spec_category cards)"

definition spec_score7 :: "Card list \<Rightarrow> int" where
  "spec_score7 cards = fold max (map spec_score5 (getCombinations cards 5)) 0"


subsection \<open>Sample hands\<close>

definition card :: "Rank \<Rightarrow> Suit \<Rightarrow> Card" where
  "card r s = \<lparr>rank = r, suit = s\<rparr>"



text \<open>Seven cards whose best hand is the wheel, and seven whose best hand is 2-3-4-5-6.\<close>

definition wheel7 :: "Card list" where
  "wheel7 = [card RA SS, card R2 SH, card R3 SD, card R4 SC, card R5 SS, card R9 SH, card RJ SD]"

definition sixHigh7 :: "Card list" where
  "sixHigh7 = [card R6 SS, card R2 SH, card R3 SD, card R4 SC, card R5 SS, card R9 SH, card RJ SD]"

subsection \<open>The value band of a category\<close>


subsection \<open>Sample tables and views\<close>

text \<open>The table of the integration test: blinds 10 and 20, players seated with 1000.\<close>

definition emptyTable :: TableInstance where
  "emptyTable =
     \<lparr>tableId = ''test-table-001'', deck = [], potManager = [],
      gameState = LOBBY_INITIALIZING, sequenceId = 0, players = [], communityCards = [],
      currentBetT = 0, dealerPosition = 0, currentPlayerIndex = 0,
      smallBlind = 10, bigBlind = 20\<rparr>"

definition seatedP1 :: TableInstance where
  "seatedP1 = snd (addPlayer emptyTable ''P1'' ''Player1'' 0 1000)"

definition headsUpTable :: TableInstance where
  "headsUpTable = snd (addPlayer seatedP1 ''P2'' ''Player2'' 1 1000)"

definition threeTable :: TableInstance where
  "threeTable = snd (addPlayer headsUpTable ''P3'' ''Player3'' 2 1000)"

text \<open>The 52 cards in the order \<^verbatim>\<open>Deck.reset\<close> builds them, before the shuffle.\<close>

definition fullDeck :: "Card list" where
  "fullDeck =
     concat (map (\<lambda>s. map (\<lambda>r. card r s) [R2, R3, R4, R5, R6, R7, R8, R9, RT, RJ, RQ, RK, RA])
                 [SH, SD, SC, SS])"

text \<open>A table after \<open>startHand\<close> on that deck (the table itself, should the deal throw).\<close>

definition dealt :: "TableInstance \<Rightarrow> TableInstance" where
  "dealt t = (case startHand t fullDeck of Inr t' \<Rightarrow> t' | Inl e \<Rightarrow> t)"

text \<open>One player who has posted 20 of 1000, facing a bet of 40 with a big blind of 20.\<close>

definition raiseSeat :: TablePlayer where
  "raiseSeat = (newPlayer ''P1'' ''Player1'' 0 1000)\<lparr>chips := 980, currentBet := 20\<rparr>"

definition raiseTable :: TableInstance where
  "raiseTable = emptyTable\<lparr>gameState := PRE_FLOP, currentBetT := 40, players := [raiseSeat]\<rparr>"

definition sampleGod :: GodState where
  "sampleGod =
     \<lparr>tableId_g = ''test-table-001'', sequenceId_g = 4, state_g = ''PRE_FLOP'',
      deck_g = [card R7 SC, card R8 SC], communityCards_g = [], pot_g = 30,
      currentBetT_g = 20, dealerPosition_g = 0, currentPlayerIndex_g = 0,
      players_g =
        [\<lparr>steamId_g = ''P1'', position_g = 0, chips_g = 1000,
          holeCards_g = [card RA SS, card RK SS], currentBet_g = 0, hasFolded_g = False,
          isAllIn_g = False, hasActed_g = False, handRank_g = None\<rparr>,
         \<lparr>steamId_g = ''P2'', position_g = 1, chips_g = 990,
          holeCards_g = [card R2 SH, card R7 SD], currentBet_g = 10, hasFolded_g = False,
          isAllIn_g = False, hasActed_g = False, handRank_g = None\<rparr>]\<rparr>"

subsection \<open>Conditions of the seating and raise checks\<close>

definition seatFree :: "TableInstance \<Rightarrow> int \<Rightarrow> bool" where
  "seatFree t pos = (\<not> list_ex (\<lambda>p. position p = pos) (players t))"

definition seatingPhase :: "TableInstance \<Rightarrow> bool" where
  "seatingPhase t =
     (gameState t = LOBBY_INITIALIZING \<or> gameState t = WAITING_FOR_PLAYERS
      \<or> gameState t = SOCIAL_BANTER)"

definition raiseAccepted :: "TableInstance \<Rightarrow> TablePlayer \<Rightarrow> int \<Rightarrow> bool" where
  "raiseAccepted t player T =
     (T \<noteq> 0 \<and> T > currentBetT t \<and> T - currentBetT t \<ge> bigBlind t
      \<and> T - currentBet player \<le> chips player)"

subsection \<open>Pots: who can be paid, the top value, sample pots\<close>

text \<open>
  \<open>payable\<close>: some entry of the winners map is eligible for the pot. \<open>topValue\<close>: the
  greatest hand value among the eligible entries.
\<close>

definition payable :: "(string \<times> int) list \<Rightarrow> Pot \<Rightarrow> bool" where
  "payable winners pot = list_ex (\<lambda>(playerId, v). playerId \<in> set (eligiblePlayers pot)) winners"

definition foldedContributions :: "(string \<times> int) list" where
  "foldedContributions = [(''P1'', 100), (''P2'', 100), (''P3'', 20)]"

definition oddPot :: Pot where
  "oddPot = \<lparr>amount = 5, eligiblePlayers = [''A'', ''B'', ''C''], isMainPot = True\<rparr>"

fun maxValue :: "int list \<Rightarrow> int" where
  "maxValue [] = 0"
| "maxValue (v # vs) = fold max vs v"

definition topValue :: "(string \<times> int) list \<Rightarrow> Pot \<Rightarrow> int" where
  "topValue winners pot =
     maxValue (map snd (filter (\<lambda>(playerId, v). playerId \<in> set (eligiblePlayers pot)) winners))"

definition threeTied :: "(string \<times> int) list" where
  "threeTied = [(''A'', 7), (''B'', 7), (''C'', 7)]"

text \<open>
  \<open>potShare\<close>: what one pot pays to player \<open>p\<close>: the floor share plus the whole
  remainder for the first tied winner, the floor share for every other tied winner,
  nothing for anybody else. \<open>scenarioPots\<close> and \<open>scenarioWinners\<close> are the all-in hand
  with stacks of 100, 200 and 300 in which the shortest stack has the best hand.
\<close>

definition potShare :: "(string \<times> int) list \<Rightarrow> Pot \<Rightarrow> string \<Rightarrow> int" where
  "potShare winners pot p =
     (case tiedWinners winners pot of
        [] \<Rightarrow> 0
      | (w, v) # rest \<Rightarrow>
          if p = w then
            amount pot div int (length (tiedWinners winners pot))
            + jsRem (amount pot) (int (length (tiedWinners winners pot)))
          else if p \<in> set (map fst rest) then
            amount pot div int (length (tiedWinners winners pot))
          else 0)"

definition scenarioPots :: "Pot list" where
  "scenarioPots =
     calculatePots [(''P1'', 100), (''P2'', 200), (''P3'', 300)] [''P1'', ''P2'', ''P3'']"

definition scenarioWinners :: "(string \<times> int) list" where
  "scenarioWinners = [(''P1'', 9000000), (''P2'', 5000000), (''P3'', 2000000)]"

definition negativePot :: Pot where
  "negativePot = \<lparr>amount = - 5, eligiblePlayers = [''A'', ''B'', ''C''], isMainPot = True\<rparr>"

subsection \<open>Chips in play and sample hands at the table\<close>

text \<open>\<open>chipsOf\<close> is the sum of the stacks; \<open>chipsInPlay\<close> adds the pot manager's total.\<close>

definition chipsOf :: "TableInstance \<Rightarrow> int" where
  "chipsOf t = sum_list (map chips (players t))"

text \<open>An action handler either keeps phase and chips in play, or has paid the pot out.\<close>

definition keepsChips :: "TableInstance \<Rightarrow> TableInstance \<Rightarrow> bool" where
  "keepsChips t t' \<longleftrightarrow>
     (chipsInPlay t' = chipsInPlay t \<and> gameState t' = gameState t)
     \<or> gameState t' = PAYOUT_ANIMATION"

text \<open>
  \<open>played\<close> is the table after a sequence of requests (the table itself, should one
  throw). \<open>raiseCallFold\<close> is the preflop of the integration test; \<open>checkDown\<close> is a
  heads-up hand in which the small blind calls and both players check to the showdown;
  \<open>shortTable\<close> seats a second player with only 5 chips.
\<close>

definition played :: "TableInstance \<Rightarrow> (string \<times> ActionType \<times> int option) list \<Rightarrow> TableInstance" where
  "played t acts = (case playActions t acts of Inr t' \<Rightarrow> t' | Inl e \<Rightarrow> t)"

definition raiseCallFold :: "(string \<times> ActionType \<times> int option) list" where
  "raiseCallFold = [(''P1'', RAISE, Some 100), (''P2'', CALL, None), (''P3'', FOLD, None)]"

definition checkDown :: "(string \<times> ActionType \<times> int option) list" where
  "checkDown =
     [(''P2'', CALL, None), (''P1'', CHECK, None),
      (''P2'', CHECK, None), (''P1'', CHECK, None),
      (''P1'', CHECK, None), (''P2'', CHECK, None),
      (''P2'', CHECK, None), (''P1'', CHECK, None)]"

definition shortTable :: TableInstance where
  "shortTable = snd (addPlayer seatedP1 ''P2'' ''Player2'' 1 5)"

section \<open>Properties of the hand evaluator\<close>










subsection \<open>The category the evaluator reports is the poker category\<close>









lemma objectEntries_set: "set (objectEntries obj) = set obj"
  by (auto simp: objectEntries_def)
























lemma take1_iff: "take 1 xs = [c] \<longleftrightarrow> (\<exists>rest. xs = c # rest)"
  by (cases xs) auto

lemma take2_iff: "take 2 xs = [c, c'] \<longleftrightarrow> (\<exists>rest. xs = c # c' # rest)"
  by (cases xs; cases "tl xs") (auto simp: numeral_2_eq_2)













subsection \<open>The order of the values\<close>




text \<open>
  Claim C6: the wheel is recognised as a straight, but its value is built from the
  highest rank among the five cards, which is the ace. Seven cards whose best hand is
  A-2-3-4-5 are valued 5000014, above the 5000006 of seven cards whose best hand is
  2-3-4-5-6, while the reference strength ranks the wheel below.
\<close>

theorem evaluateHand_wheel_ace_high:
  "map_sum id hr_value (evaluateHand wheel7) = Inr 5000014
   \<and> map_sum id hr_value (evaluateHand sixHigh7) = Inr 5000006
   \<and> spec_score7 wheel7 < spec_score7 sixHigh7"
  by code_simp

section \<open>Properties of the pot manager\<close>

text \<open>
  Claim C4: \<^verbatim>\<open>calculatePots\<close> first restricts the contributions to the players still
  in, so the chips of a player who folded appear in no pot. With contributions of 100,
  100 and 20 and the third player folded, the only pot holds 200 while
  \<^verbatim>\<open>getTotalPot\<close> is 220: the 20 are not added to the lowest pot.
\<close>

theorem calculatePots_drops_folded:
  "map amount (calculatePots foldedContributions [''P1'', ''P2'']) = [200]
   \<and> map eligiblePlayers (calculatePots foldedContributions [''P1'', ''P2'']) = [[''P1'', ''P2'']]
   \<and> getTotalPot foldedContributions = 220"
  by code_simp

text \<open>
  Claim C5, as stated, fails: a pot of 5 split between three tied winners pays 3, 1
  and 1. The remainder of 2 goes to the first tied winner alone, not one chip each to
  the first two. The total paid is not always the sum of the pot amounts either: a pot
  for which the winners map has no eligible player pays nothing, and a pot of negative
  amount \<open>- 5\<close> pays \<open>- 8\<close>.
\<close>

theorem distributePots_remainder_counterexample:
  "distributePots [oddPot] [(''A'', 7), (''B'', 7), (''C'', 7)] = [(''A'', 3), (''B'', 1), (''C'', 1)]
   \<and> distributePots [oddPot] [(''Z'', 7)] = []
   \<and> distributePots [negativePot] [(''A'', 7), (''B'', 7), (''C'', 7)]
       = [(''A'', - 4), (''B'', - 2), (''C'', - 2)]"
  by code_simp

lemma sum_mapSet:
  "sum_list (map snd (mapSet k (getOr0 m k + x) m)) = sum_list (map snd m) + x"
  by (induction m) (auto simp: getOr0_def)

lemma fold_total:
  "fold (\<lambda>(playerId, a) total. total + a) m (acc :: int) = acc + sum_list (map snd m)"
  by (induction m arbitrary: acc) (auto simp: case_prod_unfold)

lemma getTotalPot_sum: "getTotalPot m = sum_list (map snd m)"
  by (simp add: getTotalPot_def fold_total)

lemma getTotalPot_addContribution:
  "getTotalPot (addContribution k x m) = getTotalPot m + x"
  by (simp add: getTotalPot_sum addContribution_def sum_mapSet)

lemma sum_payTied_step:
  "sum_list (map snd (payTied sp rm (i, (p, v)) pay))
   = sum_list (map snd pay) + (sp + (if i = 0 then rm else 0))"
  by (simp add: payTied_def sum_mapSet)

lemma sum_payTied:
  "sum_list (map snd (fold (payTied sp rm) (enumerate i xs) pay))
   = sum_list (map snd pay) + int (length xs) * sp + (if i = 0 \<and> xs \<noteq> [] then rm else 0)"
proof (induction xs arbitrary: i pay)
  case Nil
  then show ?case by simp
next
  case (Cons x xs)
  obtain p v where x: "x = (p, v)" by (cases x)
  show ?case
    by (simp add: Cons.IH x sum_payTied_step algebra_simps)
qed

lemma jsRem_split:
  "0 \<le> a \<Longrightarrow> 0 < n \<Longrightarrow> n * (a div n) + jsRem a n = a"
  by (simp add: jsRem_def)

lemma tiedWinners_nonempty:
  "eligibleWinners winners pot \<noteq> [] \<Longrightarrow> tiedWinners winners pot \<noteq> []"
  by (auto simp: tiedWinners_def split: list.splits)

lemma eligibleWinners_empty_iff:
  "eligibleWinners winners pot = [] \<longleftrightarrow> \<not> payable winners pot"
proof -
  have "eligibleWinners winners pot = [] \<longleftrightarrow> length (eligibleWinners winners pot) = 0"
    by simp
  also have "\<dots> \<longleftrightarrow> filter (\<lambda>(playerId, v). playerId \<in> set (eligiblePlayers pot)) winners = []"
    by (simp add: eligibleWinners_def)
  also have "\<dots> \<longleftrightarrow> \<not> payable winners pot"
    by (auto simp: payable_def list_ex_iff filter_empty_conv)
  finally show ?thesis .
qed

lemma sum_distributePot:
  assumes "0 \<le> amount pot"
  shows "sum_list (map snd (distributePot winners pot pay))
         = sum_list (map snd pay) + (if payable winners pot then amount pot else 0)"
proof (cases "payable winners pot")
  case False
  then have "eligibleWinners winners pot = []"
    by (simp add: eligibleWinners_empty_iff)
  with False show ?thesis
    by (simp add: distributePot_def)
next
  case True
  then have ne: "eligibleWinners winners pot \<noteq> []"
    by (simp add: eligibleWinners_empty_iff)
  then have tne: "tiedWinners winners pot \<noteq> []"
    by (rule tiedWinners_nonempty)
  then have pos: "0 < int (length (tiedWinners winners pot))" by simp
  from jsRem_split [OF assms pos] ne tne True show ?thesis
    by (simp add: distributePot_def Let_def sum_payTied algebra_simps)
qed

lemma sum_fold_distributePot:
  "list_all (\<lambda>pot. 0 \<le> amount pot) pots
   \<Longrightarrow> sum_list (map snd (fold (distributePot winners) pots pay))
       = sum_list (map snd pay) + sum_list (map amount (filter (payable winners) pots))"
  by (induction pots arbitrary: pay) (simp_all add: sum_distributePot)

lemma maxValue_Max: "vs \<noteq> [] \<Longrightarrow> maxValue vs = Max (set vs)"
proof (cases vs)
  case Nil
  assume "vs \<noteq> []"
  with Nil show ?thesis by simp
next
  case (Cons v rest)
  have "maxValue vs = fold max rest v"
    by (simp add: Cons)
  also have "\<dots> = Max (set (v # rest))"
    by (rule Max.set_eq_fold [symmetric])
  finally show ?thesis
    by (simp only: Cons)
qed

lemma mapSet_fresh: "k \<notin> fst ` set m \<Longrightarrow> mapSet k v m = m @ [(k, v)]"
  by (induction m) auto

lemma getOr0_fresh: "k \<notin> fst ` set m \<Longrightarrow> getOr0 m k = 0"
  by (simp add: getOr0_def map_of_eq_None_iff [THEN iffD2])

lemma fold_payTied_fresh:
  "distinct (map fst xs) \<Longrightarrow> fst ` set xs \<inter> fst ` set pay = {}
   \<Longrightarrow> fold (payTied sp rm) (enumerate i xs) pay
       = pay @ map (\<lambda>(idx, (p, v)). (p, sp + (if idx = 0 then rm else 0))) (enumerate i xs)"
proof (induction xs arbitrary: i pay)
  case Nil
  then show ?case by simp
next
  case (Cons x xs)
  obtain p v where x: "x = (p, v)" by (cases x)
  from Cons.prems x have fresh: "p \<notin> fst ` set pay" by auto
  have step: "payTied sp rm (i, (p, v)) pay = pay @ [(p, sp + (if i = 0 then rm else 0))]"
    by (simp add: payTied_def getOr0_fresh [OF fresh] mapSet_fresh [OF fresh])
  from Cons.prems x
  have d: "distinct (map fst xs)"
    and dj: "fst ` set xs \<inter> fst ` set (pay @ [(p, sp + (if i = 0 then rm else 0))]) = {}"
    by auto
  show ?case
    using Cons.IH [OF d dj] by (simp add: x step)
qed

lemma enumerate_later:
  "0 < i \<Longrightarrow> map (\<lambda>(idx, (p, v)). (p, sp + (if idx = 0 then rm else (0::int)))) (enumerate i xs)
             = map (\<lambda>(p, v). (p, sp)) xs"
  by (induction xs arbitrary: i) auto

lemma distinct_fst_sort_key:
  "distinct (map fst xs) \<Longrightarrow> distinct (map fst (sort_key f xs))"
  by (simp add: distinct_map)

lemma distinct_fst_filter:
  "distinct (map fst xs) \<Longrightarrow> distinct (map fst (filter P xs))"
  by (simp add: distinct_map_filter)

lemma distinct_tiedWinners:
  assumes "distinct (map fst winners)"
  shows "distinct (map fst (tiedWinners winners pot))"
proof (cases "eligibleWinners winners pot")
  case Nil
  then show ?thesis by (simp add: tiedWinners_def)
next
  case (Cons a rest)
  obtain w tv where a: "a = (w, tv)" by (cases a)
  have d: "distinct (map fst (eligibleWinners winners pot))"
    using assms by (simp add: eligibleWinners_def distinct_fst_sort_key distinct_fst_filter)
  have "tiedWinners winners pot
        = filter (\<lambda>(playerId, v). v = tv) (eligibleWinners winners pot)"
    by (simp add: tiedWinners_def Cons a)
  with distinct_fst_filter [OF d] show ?thesis
    by simp
qed

lemma distributePot_split:
  assumes "distinct (map fst winners)"
  shows "distributePot winners pot [] =
     (case tiedWinners winners pot of
        [] \<Rightarrow> []
      | (w, v) # rest \<Rightarrow>
          (w, amount pot div int (length (tiedWinners winners pot))
              + jsRem (amount pot) (int (length (tiedWinners winners pot))))
          # map (\<lambda>(p, v). (p, amount pot div int (length (tiedWinners winners pot)))) rest)"
proof (cases "eligibleWinners winners pot = []")
  case True
  then show ?thesis by (simp add: distributePot_def tiedWinners_def)
next
  case False
  from distinct_tiedWinners [OF assms]
  have d: "distinct (map fst (tiedWinners winners pot))" .
  from False show ?thesis
    by (simp add: distributePot_def Let_def fold_payTied_fresh [OF d] enumerate_later
        split: list.splits prod.splits)
qed

lemma sort_key_hd_least:
  "sort_key f xs = y # ys \<Longrightarrow> x \<in> set xs \<Longrightarrow> f y \<le> f x"
proof -
  assume a: "sort_key f xs = y # ys" and b: "x \<in> set xs"
  have "sorted (map f (sort_key f xs))" by (rule sorted_sort_key)
  with a have "\<forall>z \<in> set ys. f y \<le> f z" by simp
  moreover from a have "set xs = set (y # ys)" by (metis set_sort)
  ultimately show ?thesis using b by auto
qed

lemma eligibleWinners_top:
  assumes "eligibleWinners winners pot = (w, tv) # rest"
  shows "tv = topValue winners pot"
proof -
  let ?el = "filter (\<lambda>(playerId, v). playerId \<in> set (eligiblePlayers pot)) winners"
  from assms have s: "sort_key (\<lambda>(playerId, v). - v) ?el = (w, tv) # rest"
    by (simp add: eligibleWinners_def)
  then have ne: "?el \<noteq> []" by auto
  from s have "set ?el = set ((w, tv) # rest)" by (metis set_sort)
  then have mem: "tv \<in> set (map snd ?el)" by force
  have ub: "v \<le> tv" if "v \<in> set (map snd ?el)" for v
  proof -
    from that obtain p where "(p, v) \<in> set ?el" by auto
    from sort_key_hd_least [OF s this] show ?thesis by simp
  qed
  have "Max (set (map snd ?el)) = tv"
    by (rule Max_eqI) (use mem ub in auto)
  with ne show ?thesis by (simp add: topValue_def maxValue_Max)
qed

lemma tiedWinners_in_order:
  "tiedWinners winners pot =
     filter (\<lambda>(playerId, v). playerId \<in> set (eligiblePlayers pot) \<and> v = topValue winners pot)
       winners"
proof (cases "eligibleWinners winners pot")
  case Nil
  then have "filter (\<lambda>(playerId, v). playerId \<in> set (eligiblePlayers pot)) winners = []"
    by (metis eligibleWinners_def length_sort length_0_conv)
  then have "filter (\<lambda>(playerId, v). playerId \<in> set (eligiblePlayers pot) \<and> v = topValue winners pot) winners = []"
    by (auto simp: filter_empty_conv)
  with Nil show ?thesis by (simp add: tiedWinners_def)
next
  case (Cons a rest)
  obtain w tv where a: "a = (w, tv)" by (cases a)
  from Cons a have "tv = topValue winners pot"
    by (auto dest: eligibleWinners_top)
  with Cons a have hd: "eligibleWinners winners pot = (w, topValue winners pot) # rest"
    by simp
  let ?key = "\<lambda>(playerId :: string, v :: int). - v"
  let ?el = "filter (\<lambda>(playerId, v). playerId \<in> set (eligiblePlayers pot)) winners"
  have same: "(\<lambda>(playerId :: string, v). v = topValue winners pot)
              = (\<lambda>y. ?key y = - topValue winners pot)"
    by (rule ext) (simp add: case_prod_unfold)
  have "tiedWinners winners pot
        = filter (\<lambda>(playerId, v). v = topValue winners pot) (eligibleWinners winners pot)"
    by (simp add: tiedWinners_def hd)
  also have "\<dots>
        = filter (\<lambda>y. ?key y = - topValue winners pot) (eligibleWinners winners pot)"
    by (simp only: same)
  also have "\<dots> = filter (\<lambda>y. ?key y = - topValue winners pot) ?el"
    unfolding eligibleWinners_def by (rule sort_key_stable)
  also have "\<dots> = filter (\<lambda>(playerId, v). playerId \<in> set (eligiblePlayers pot)
                                    \<and> v = topValue winners pot) winners"
    unfolding filter_filter by (rule filter_cong) auto
  finally show ?thesis .
qed

lemma getOr0_mapSet: "getOr0 (mapSet k v m) p = (if p = k then v else getOr0 m p)"
  by (induction m) (auto simp: getOr0_def)

lemma getOr0_payTied:
  "getOr0 (payTied sp rm (i, (q, v)) pay) p
   = (if p = q then getOr0 pay q + (sp + (if i = 0 then rm else 0)) else getOr0 pay p)"
  by (simp add: payTied_def getOr0_mapSet)

lemma getOr0_fold_payTied:
  "distinct (map fst xs)
   \<Longrightarrow> getOr0 (fold (payTied sp rm) (enumerate i xs) pay) p
       = getOr0 pay p
         + (if p \<in> fst ` set xs
            then sp + (if i = 0 \<and> p = fst (hd xs) then rm else 0) else 0)"
proof (induction xs arbitrary: i pay)
  case Nil
  then show ?case by simp
next
  case (Cons x xs)
  obtain q v where x: "x = (q, v)" by (cases x)
  from Cons.prems x have d: "distinct (map fst xs)" and fresh: "q \<notin> fst ` set xs"
    by auto
  show ?case
    using fresh
    by (auto simp: x Cons.IH [OF d] getOr0_payTied)
qed

lemma getOr0_distributePot:
  assumes "distinct (map fst winners)"
  shows "getOr0 (distributePot winners pot pay) p = getOr0 pay p + potShare winners pot p"
proof (cases "tiedWinners winners pot")
  case Nil
  then have "eligibleWinners winners pot = []"
    using tiedWinners_nonempty by blast
  with Nil show ?thesis
    by (simp add: distributePot_def potShare_def)
next
  case (Cons a rest)
  obtain w v where a: "a = (w, v)" by (cases a)
  from Cons have ne: "eligibleWinners winners pot \<noteq> []"
    by (auto simp: tiedWinners_def)
  from distinct_tiedWinners [OF assms, of pot] Cons a
  have d: "distinct (map fst ((w, v) # rest))" by simp
  have "getOr0 (distributePot winners pot pay) p
        = getOr0 (fold (payTied (amount pot div int (length ((w, v) # rest)))
                          (jsRem (amount pot) (int (length ((w, v) # rest)))))
                    (enumerate 0 ((w, v) # rest)) pay) p"
    using ne Cons a by (simp add: distributePot_def Let_def)
  also have "\<dots> = getOr0 pay p + potShare winners pot p"
    unfolding getOr0_fold_payTied [OF d]
    using d by (auto simp: potShare_def Cons a)
  finally show ?thesis .
qed

lemma getOr0_fold_distributePot:
  assumes "distinct (map fst winners)"
  shows "getOr0 (fold (distributePot winners) pots pay) p
         = getOr0 pay p + sum_list (map (\<lambda>pot. potShare winners pot p) pots)"
  by (induction pots arbitrary: pay) (simp_all add: getOr0_distributePot [OF assms])

text \<open>
  Claim C5, amended: for every pot of the list, with \<open>n\<close> tied winners, each tied
  winner receives \<open>floor(amount / n)\<close> and the first of them receives the whole
  remainder in addition; a player's payout is the sum of these shares over all the pots,
  whatever was paid before. The tied winners are the eligible entries of the winners map
  with the top hand value, in the order of that map (seats and the dealer play no part,
  and nothing is random). The total paid out is the sum of the amounts of the pots that
  have an eligible winner, for pots of non-negative amount.
\<close>

theorem distributePots_split_and_total:
  "(distinct (map fst winners) \<longrightarrow>
      getOr0 (distributePot winners pot payouts) p = getOr0 payouts p + potShare winners pot p
      \<and> getOr0 (distributePots pots winners) p
          = sum_list (map (\<lambda>pot. potShare winners pot p) pots)
      \<and> distributePot winners pot [] =
          (case tiedWinners winners pot of
             [] \<Rightarrow> []
           | (w, v) # rest \<Rightarrow>
               (w, amount pot div int (length (tiedWinners winners pot))
                   + jsRem (amount pot) (int (length (tiedWinners winners pot))))
               # map (\<lambda>(p, v). (p, amount pot div int (length (tiedWinners winners pot)))) rest))
   \<and> tiedWinners winners pot =
       filter (\<lambda>(playerId, v). playerId \<in> set (eligiblePlayers pot) \<and> v = topValue winners pot)
         winners
   \<and> (list_all (\<lambda>pot. 0 \<le> amount pot) pots \<longrightarrow>
        sum_list (map snd (distributePots pots winners))
        = sum_list (map amount (filter (payable winners) pots)))"
  using distributePot_split [of winners pot] tiedWinners_in_order [of winners pot]
    sum_fold_distributePot [of pots winners "[]"]
    getOr0_distributePot [of winners pot payouts p]
    getOr0_fold_distributePot [of winners pots "[]" p]
  by (simp add: distributePots_def getOr0_def)

theorem distributePots_split_and_total_witness:
  "map amount scenarioPots = [300, 200, 100]
   \<and> getOr0 (distributePots scenarioPots scenarioWinners) ''P1'' = 300
   \<and> getOr0 (distributePots scenarioPots scenarioWinners) ''P2'' = 200
   \<and> getOr0 (distributePots scenarioPots scenarioWinners) ''P3'' = 100
   \<and> tiedWinners threeTied oddPot = [(''A'', 7), (''B'', 7), (''C'', 7)]
   \<and> distributePot threeTied oddPot [] = [(''A'', 3), (''B'', 1), (''C'', 1)]
   \<and> getOr0 (distributePot threeTied oddPot [(''A'', 300)]) ''A'' = 303
   \<and> sum_list (map snd (distributePots [oddPot] threeTied)) = 5"
proof -
  have dw: "distinct (map fst scenarioWinners)" by (simp add: scenarioWinners_def)
  have am: "map amount scenarioPots = [300, 200, 100]" by code_simp
  have sh: "map (\<lambda>pot. potShare scenarioWinners pot ''P1'') scenarioPots = [300, 0, 0]"
    "map (\<lambda>pot. potShare scenarioWinners pot ''P2'') scenarioPots = [0, 200, 0]"
    "map (\<lambda>pot. potShare scenarioWinners pot ''P3'') scenarioPots = [0, 0, 100]"
    by code_simp+
  have d: "distinct (map fst threeTied)" by (simp add: threeTied_def)
  have a: "list_all (\<lambda>pot. 0 \<le> amount pot) [oddPot]" by (simp add: oddPot_def)
  have p: "payable threeTied oddPot" by (simp add: payable_def threeTied_def oddPot_def)
  have t: "topValue [(''A'', 7), (''B'', 7), (''C'', 7)] oddPot = 7"
    by (simp add: topValue_def oddPot_def)
  have e: "eligiblePlayers oddPot = [''A'', ''B'', ''C'']" "amount oddPot = 5"
    by (simp_all add: oddPot_def)
  have s: "potShare threeTied oddPot ''A'' = 3" by code_simp
  from distributePots_split_and_total
         [of scenarioWinners "hd scenarioPots" "[]" "''P1''" scenarioPots] dw sh
  have p1: "getOr0 (distributePots scenarioPots scenarioWinners) ''P1'' = 300" by simp
  from distributePots_split_and_total
         [of scenarioWinners "hd scenarioPots" "[]" "''P2''" scenarioPots] dw sh
  have p2: "getOr0 (distributePots scenarioPots scenarioWinners) ''P2'' = 200" by simp
  from distributePots_split_and_total
         [of scenarioWinners "hd scenarioPots" "[]" "''P3''" scenarioPots] dw sh
  have p3: "getOr0 (distributePots scenarioPots scenarioWinners) ''P3'' = 100" by simp
  from distributePots_split_and_total [of threeTied oddPot "[(''A'', 300)]" "''A''" "[oddPot]"] d a p
  have "distributePot threeTied oddPot [] =
        (case tiedWinners threeTied oddPot of
           [] \<Rightarrow> []
         | (w, v) # rest \<Rightarrow>
             (w, amount oddPot div int (length (tiedWinners threeTied oddPot))
                 + jsRem (amount oddPot) (int (length (tiedWinners threeTied oddPot))))
             # map (\<lambda>(p, v). (p, amount oddPot div int (length (tiedWinners threeTied oddPot)))) rest)"
    and "tiedWinners threeTied oddPot =
       filter (\<lambda>(playerId, v). playerId \<in> set (eligiblePlayers oddPot) \<and> v = topValue threeTied oddPot)
         threeTied"
    and "sum_list (map snd (distributePots [oddPot] threeTied)) = amount oddPot"
    and "getOr0 (distributePot threeTied oddPot [(''A'', 300)]) ''A''
         = getOr0 [(''A'', 300)] ''A'' + potShare threeTied oddPot ''A''"
    by simp_all
  with am p1 p2 p3 s show ?thesis
    by (simp add: t e threeTied_def jsRem_def getOr0_def)
qed

section \<open>Properties of the serializer\<close>

text \<open>
  Claim C2: whatever the god state (so in every phase) and whoever the recipient, the
  personal view has no deck, keeps the players in place, hides the hole cards of every
  player whose identifier differs from the recipient's and carries the recipient's own.
\<close>

theorem serializeForPlayer_sanitized:
  "deck_v (serializeForPlayer G R) = None
   \<and> length (players_v (serializeForPlayer G R)) = length (players_g G)
   \<and> (\<forall>i < length (players_g G).
         steamId_v (players_v (serializeForPlayer G R) ! i) = steamId_g (players_g G ! i)
         \<and> (steamId_g (players_g G ! i) \<noteq> R
              \<longrightarrow> holeCards_v (players_v (serializeForPlayer G R) ! i) = None)
         \<and> (steamId_g (players_g G ! i) = R
              \<longrightarrow> holeCards_v (players_v (serializeForPlayer G R) ! i)
                    = Some (holeCards_g (players_g G ! i))))"
  by (simp add: serializeForPlayer_def)

theorem serializeForPlayer_sanitized_witness:
  "deck_v (serializeForPlayer sampleGod ''P1'') = None
   \<and> holeCards_v (players_v (serializeForPlayer sampleGod ''P1'') ! 1) = None
   \<and> holeCards_v (players_v (serializeForPlayer sampleGod ''P1'') ! 0)
       = Some [card RA SS, card RK SS]"
proof -
  have len: "length (players_g sampleGod) = 2"
    by (simp add: sampleGod_def)
  have id0: "steamId_g (players_g sampleGod ! 0) = ''P1''"
    and id1: "steamId_g (players_g sampleGod ! 1) \<noteq> ''P1''"
    and hc: "holeCards_g (players_g sampleGod ! 0) = [card RA SS, card RK SS]"
    by (simp_all add: sampleGod_def)
  from serializeForPlayer_sanitized [of sampleGod "''P1''"] len id0 id1 hc
  show ?thesis by (auto simp: numeral_2_eq_2)
qed

section \<open>Properties of seating\<close>

lemma seatedP1_players:
  "players seatedP1 = [newPlayer ''P1'' ''Player1'' 0 1000]"
  "gameState seatedP1 = WAITING_FOR_PLAYERS"
  by (simp_all add: seatedP1_def addPlayer_def emptyTable_def maxPlayers_def transitionTo_def)

text \<open>
  Claim C10, as stated, fails: nothing in \<^verbatim>\<open>addPlayer\<close> looks at the identifier. A player
  who already holds seat 0 is accepted again at the free seat 1, and the table then has
  two bindings for the same identifier.
\<close>

theorem addPlayer_same_id_counterexample:
  "map steamId (players seatedP1) = [''P1'']
   \<and> fst (addPlayer seatedP1 ''P1'' ''Player1'' 1 1000) = True
   \<and> map steamId (players (snd (addPlayer seatedP1 ''P1'' ''Player1'' 1 1000)))
       = [''P1'', ''P1'']"
  by (simp add: seatedP1_players addPlayer_def maxPlayers_def newPlayer_def)

text \<open>
  Claim C10, amended: \<^verbatim>\<open>addPlayer\<close> accepts exactly when fewer than six players are
  seated, the requested seat is free and the phase is Lobby, Waiting or SocialBanter.
  On a refusal the table is unchanged (no binding is added) and the \<^verbatim>\<open>REQ_SIT\<close> handler
  reports the one code \<^verbatim>\<open>SEAT_TAKEN\<close>, whatever the reason; on acceptance exactly the new
  binding is appended. The identifier is not examined.
\<close>

theorem addPlayer_accepts_iff:
  "(fst (addPlayer t sid uname pos buyIn)
      \<longleftrightarrow> length (players t) < maxPlayers \<and> seatFree t pos \<and> seatingPhase t)
   \<and> (\<not> fst (addPlayer t sid uname pos buyIn)
        \<longrightarrow> snd (addPlayer t sid uname pos buyIn) = t
            \<and> reqSit t sid uname pos buyIn = (Some SEAT_TAKEN, t))
   \<and> (fst (addPlayer t sid uname pos buyIn)
        \<longrightarrow> players (snd (addPlayer t sid uname pos buyIn))
              = players t @ [newPlayer sid uname pos buyIn]
            \<and> reqSit t sid uname pos buyIn = (None, snd (addPlayer t sid uname pos buyIn)))"
  by (auto simp: addPlayer_def reqSit_def seatFree_def seatingPhase_def Let_def transitionTo_def)

theorem addPlayer_accepts_iff_witness:
  "\<not> fst (addPlayer seatedP1 ''P2'' ''Player2'' 0 500)
   \<and> snd (addPlayer seatedP1 ''P2'' ''Player2'' 0 500) = seatedP1
   \<and> reqSit seatedP1 ''P2'' ''Player2'' 0 500 = (Some SEAT_TAKEN, seatedP1)
   \<and> fst (addPlayer seatedP1 ''P2'' ''Player2'' 1 500)
   \<and> map steamId (players (snd (addPlayer seatedP1 ''P2'' ''Player2'' 1 500)))
       = [''P1'', ''P2'']"
proof -
  have taken: "\<not> seatFree seatedP1 0"
    by (simp add: seatFree_def seatedP1_players newPlayer_def)
  have free: "seatFree seatedP1 1"
    by (simp add: seatFree_def seatedP1_players newPlayer_def)
  have room: "length (players seatedP1) < maxPlayers"
    by (simp add: seatedP1_players maxPlayers_def)
  have phase: "seatingPhase seatedP1"
    by (simp add: seatingPhase_def seatedP1_players)
  from addPlayer_accepts_iff [of seatedP1 "''P2''" "''Player2''" 0 500]
    addPlayer_accepts_iff [of seatedP1 "''P2''" "''Player2''" 1 500]
    taken free room phase
  show ?thesis by (simp add: seatedP1_players newPlayer_def)
qed

section \<open>Properties of the betting actions\<close>

subsection \<open>Looking a player up after an update\<close>

lemma find_updateFirst_same:
  "(\<And>x. P x \<Longrightarrow> P (f x)) \<Longrightarrow> find P (updateFirst P f xs) = map_option f (find P xs)"
  by (induction xs) auto

lemma getPlayer_updatePlayer:
  "(\<And>p. steamId (f p) = steamId p)
   \<Longrightarrow> getPlayerBySteamId (updatePlayer sid f t) sid = map_option f (getPlayerBySteamId t sid)"
  by (simp add: getPlayerBySteamId_def updatePlayer_def find_updateFirst_same)

lemma getPlayer_reopenAction:
  "getPlayerBySteamId (reopenAction sid t) sid = getPlayerBySteamId t sid"
proof -
  have "find (\<lambda>p. steamId p = sid)
          (map (\<lambda>p. if steamId p \<noteq> sid \<and> \<not> hasFolded p \<and> \<not> isAllIn p
                     then p\<lparr>hasActed := False\<rparr> else p) xs)
        = find (\<lambda>p. steamId p = sid) xs" for xs
    by (induction xs) auto
  then show ?thesis by (simp add: getPlayerBySteamId_def reopenAction_def)
qed

lemma getPlayer_fields [simp]:
  "getPlayerBySteamId (t\<lparr>potManager := pm\<rparr>) sid = getPlayerBySteamId t sid"
  "getPlayerBySteamId (t\<lparr>currentBetT := b\<rparr>) sid = getPlayerBySteamId t sid"
  by (simp_all add: getPlayerBySteamId_def)

subsection \<open>Raises\<close>

text \<open>
  Claim C8, as stated, fails: the table keeps no minimum-raise increment. After the big
  blind of 20 a raise to 100 (an increment of 80) is accepted, and so is the next
  player's raise to 120, an increment of only 20.
\<close>

theorem handlePlayerRaise_ignores_last_raise_counterexample:
  "currentBetT (dealt threeTable) = 20 \<and> bigBlind (dealt threeTable) = 20
   \<and> fst (handlePlayerRaise (dealt threeTable) ''P1'' (Some 100))
   \<and> currentBetT (snd (handlePlayerRaise (dealt threeTable) ''P1'' (Some 100))) = 100
   \<and> fst (handlePlayerRaise (snd (handlePlayerRaise (dealt threeTable) ''P1'' (Some 100)))
            ''P2'' (Some 120))
   \<and> (120 :: int) - 100 < 100 - 20"
  by code_simp

lemma handlePlayerRaise_rejected:
  assumes "getPlayerBySteamId t sid = Some player" and "\<not> raiseAccepted t player T"
  shows "handlePlayerRaise t sid (Some T) = (False, t)"
  using assms by (auto simp: handlePlayerRaise_def raiseAccepted_def Let_def)

lemma handlePlayerRaise_accepted:
  assumes "getPlayerBySteamId t sid = Some player" and "raiseAccepted t player T"
  shows "handlePlayerRaise t sid (Some T) =
     (True,
      updatePlayer sid (\<lambda>p. if chips p = 0 then p\<lparr>isAllIn := True\<rparr> else p)
        (reopenAction sid
          ((updatePlayer sid
              (\<lambda>p. p\<lparr>chips := chips p - (T - currentBet player), currentBet := T\<rparr>) t)
           \<lparr>currentBetT := T,
            potManager := addContribution (steamId player) (T - currentBet player)
                            (potManager t)\<rparr>)))"
  using assms
  by (auto simp: handlePlayerRaise_def raiseAccepted_def Let_def updatePlayer_def)

text \<open>
  Claim C8, amended: for a seated player, a raise to total \<open>T\<close> is accepted if and only
  if \<open>T\<close> is not 0, \<open>T\<close> exceeds the current bet to match, the increment over it is at
  least the big blind, and \<open>T\<close> minus the player's round wager is at most the stack. On
  acceptance the current bet to match becomes \<open>T\<close>, the player's wager becomes \<open>T\<close> and
  the stack pays the difference; the least increment remains the big blind. On rejection
  the table is unchanged.
\<close>

theorem handlePlayerRaise_accepts_iff:
  assumes "getPlayerBySteamId t sid = Some player"
  shows "(fst (handlePlayerRaise t sid (Some T))
            \<longleftrightarrow> T \<noteq> 0 \<and> T > currentBetT t \<and> T - currentBetT t \<ge> bigBlind t
                \<and> T - currentBet player \<le> chips player)
         \<and> (fst (handlePlayerRaise t sid (Some T))
              \<longrightarrow> currentBetT (snd (handlePlayerRaise t sid (Some T))) = T
                  \<and> bigBlind (snd (handlePlayerRaise t sid (Some T))) = bigBlind t
                  \<and> map_option currentBet
                       (getPlayerBySteamId (snd (handlePlayerRaise t sid (Some T))) sid) = Some T
                  \<and> map_option chips
                       (getPlayerBySteamId (snd (handlePlayerRaise t sid (Some T))) sid)
                     = Some (chips player - (T - currentBet player)))
         \<and> (\<not> fst (handlePlayerRaise t sid (Some T))
              \<longrightarrow> snd (handlePlayerRaise t sid (Some T)) = t)"
proof (cases "raiseAccepted t player T")
  case False
  from handlePlayerRaise_rejected [OF assms False] False
  show ?thesis by (simp add: raiseAccepted_def)
next
  case True
  have bets: "currentBetT (updatePlayer sid f u) = currentBetT u"
       "bigBlind (updatePlayer sid f u) = bigBlind u"
       "currentBetT (reopenAction sid u) = currentBetT u"
       "bigBlind (reopenAction sid u) = bigBlind u" for f u
    by (simp_all add: updatePlayer_def reopenAction_def)
  from handlePlayerRaise_accepted [OF assms True] True assms
  show ?thesis
    by (simp add: raiseAccepted_def bets getPlayer_updatePlayer getPlayer_reopenAction
        option.map_comp comp_def)
qed

theorem handlePlayerRaise_accepts_iff_witness:
  "fst (handlePlayerRaise raiseTable ''P1'' (Some 60))
   \<and> currentBetT (snd (handlePlayerRaise raiseTable ''P1'' (Some 60))) = 60
   \<and> map_option chips (getPlayerBySteamId (snd (handlePlayerRaise raiseTable ''P1'' (Some 60))) ''P1'')
       = Some 940
   \<and> \<not> fst (handlePlayerRaise raiseTable ''P1'' (Some 59))
   \<and> snd (handlePlayerRaise raiseTable ''P1'' (Some 59)) = raiseTable"
proof -
  have p: "getPlayerBySteamId raiseTable ''P1'' = Some raiseSeat"
    by (simp add: getPlayerBySteamId_def raiseTable_def raiseSeat_def newPlayer_def)
  have v: "currentBetT raiseTable = 40" "bigBlind raiseTable = 20"
    "currentBet raiseSeat = 20" "chips raiseSeat = 980"
    by (simp_all add: raiseTable_def raiseSeat_def emptyTable_def newPlayer_def)
  from handlePlayerRaise_accepts_iff [OF p, of 60] handlePlayerRaise_accepts_iff [OF p, of 59] v
  show ?thesis by simp
qed

subsection \<open>Blinds\<close>

text \<open>
  Claim C7, as stated, fails: \<^verbatim>\<open>postBlinds\<close> has no heads-up case. With two players and
  the dealer at index 0, the dealer \<^verbatim>\<open>P1\<close> posts the big blind of 20, the other player
  \<^verbatim>\<open>P2\<close> posts the small blind of 10 and is first to act.
\<close>

theorem postBlinds_headsUp_counterexample:
  "dealerPosition headsUpTable = 0
   \<and> smallBlind headsUpTable = 10 \<and> bigBlind headsUpTable = 20
   \<and> map (\<lambda>p. (steamId p, currentBet p)) (players (postBlinds headsUpTable))
       = [(''P1'', 20), (''P2'', 10)]
   \<and> currentPlayerIndex (postBlinds headsUpTable) = 1"
  by code_simp

text \<open>
  Claim C7, amended: in every hand at a table with exactly two seated players, the
  player one place after the dealer position (the non-dealer) posts the small blind and
  the player at the dealer position posts the big blind: each pays the blind capped by
  the stack, has it as round wager and as contribution to the pot, is all-in when the
  blind takes the whole stack, and the non-dealer is first to act preflop.
\<close>

theorem postBlinds_headsUp:
  assumes "length (players t) = 2"
    and "d = dealerPosition t mod 2"
    and "nd = (dealerPosition t + 1) mod 2"
    and "sb = min (smallBlind t) (chips (players t ! nd))"
    and "bb = min (bigBlind t) (chips (players t ! d))"
  shows "chips (players (postBlinds t) ! nd) = chips (players t ! nd) - sb
         \<and> currentBet (players (postBlinds t) ! nd) = sb
         \<and> chips (players (postBlinds t) ! d) = chips (players t ! d) - bb
         \<and> currentBet (players (postBlinds t) ! d) = bb
         \<and> isAllIn (players (postBlinds t) ! nd)
             = (chips (players t ! nd) - sb = 0 \<or> isAllIn (players t ! nd))
         \<and> isAllIn (players (postBlinds t) ! d)
             = (chips (players t ! d) - bb = 0 \<or> isAllIn (players t ! d))
         \<and> potManager (postBlinds t)
             = addContribution (steamId (players t ! d)) bb
                 (addContribution (steamId (players t ! nd)) sb (potManager t))
         \<and> getTotalPot (potManager (postBlinds t)) = getTotalPot (potManager t) + sb + bb
         \<and> currentPlayerIndex (postBlinds t) = nd"
proof -
  have ne: "(dealerPosition t + 1) mod 2 \<noteq> dealerPosition t mod 2" by presburger
  have bbi: "(dealerPosition t + 2) mod 2 = dealerPosition t mod 2" by simp
  have cp: "Suc (dealerPosition t mod 2) mod 2 = Suc (dealerPosition t) mod 2" by presburger
  have lt: "(dealerPosition t + 1) mod 2 < 2" "dealerPosition t mod 2 < 2" by simp_all
  have cb: "currentBet (postBlind b p) = min b (chips p)"
    and ch: "chips (postBlind b p) = chips p - min b (chips p)" for b p
    by (simp_all add: postBlind_def Let_def)
  have ai: "isAllIn (postBlind b p) = (chips p - min b (chips p) = 0 \<or> isAllIn p)" for b p
    by (auto simp: postBlind_def Let_def)
  show ?thesis
    using assms(1) ne lt
    unfolding assms(2-5)
    by (simp add: postBlinds_def Let_def bbi cp cb ch ai nth_list_update
        getTotalPot_addContribution)
qed

theorem postBlinds_headsUp_witness:
  "chips (players (postBlinds headsUpTable) ! 1) = 990
   \<and> currentBet (players (postBlinds headsUpTable) ! 1) = 10
   \<and> chips (players (postBlinds headsUpTable) ! 0) = 980
   \<and> currentBet (players (postBlinds headsUpTable) ! 0) = 20
   \<and> \<not> isAllIn (players (postBlinds headsUpTable) ! 1)
   \<and> \<not> isAllIn (players (postBlinds headsUpTable) ! 0)
   \<and> potManager (postBlinds headsUpTable) = [(''P2'', 10), (''P1'', 20)]
   \<and> getTotalPot (potManager (postBlinds headsUpTable)) = 30
   \<and> currentPlayerIndex (postBlinds headsUpTable) = 1"
proof -
  have len: "length (players headsUpTable) = 2" by code_simp
  have d: "0 = dealerPosition headsUpTable mod 2"
    and nd: "1 = (dealerPosition headsUpTable + 1) mod 2"
    and sb: "10 = min (smallBlind headsUpTable) (chips (players headsUpTable ! 1))"
    and bb: "20 = min (bigBlind headsUpTable) (chips (players headsUpTable ! 0))"
    by code_simp+
  have c: "chips (players headsUpTable ! 0) = 1000" "chips (players headsUpTable ! 1) = 1000"
    "steamId (players headsUpTable ! 0) = ''P1''" "steamId (players headsUpTable ! 1) = ''P2''"
    "potManager headsUpTable = []"
    "\<not> isAllIn (players headsUpTable ! 0)" "\<not> isAllIn (players headsUpTable ! 1)"
    by code_simp+
  from postBlinds_headsUp [OF len d nd sb bb] c show ?thesis
    by (simp add: addContribution_def getOr0_def getTotalPot_def)
qed

section \<open>Chips in play during a hand\<close>

subsection \<open>Sums of stacks and contributions\<close>

lemma sum_chips_updateFirst:
  "sum_list (map chips (updateFirst P f xs))
   = sum_list (map chips xs)
     + (case find P xs of None \<Rightarrow> 0 | Some x \<Rightarrow> chips (f x) - chips x)"
  by (induction xs) auto

lemma map_chips_updateFirst_same:
  "(\<And>x. chips (f x) = chips x) \<Longrightarrow> map chips (updateFirst P f xs) = map chips xs"
  by (induction xs) auto

lemma map_chips_update_same:
  "(\<And>x. chips (f x) = chips x) \<Longrightarrow> map chips (xs[i := f (xs ! i)]) = map chips xs"
  by (cases "i < length xs") (simp_all add: map_update list_update_same_conv list_update_beyond)

lemma sum_list_update_int:
  fixes xs :: "int list"
  shows "i < length xs \<Longrightarrow> sum_list (xs[i := v]) = sum_list xs - xs ! i + v"
  by (induction xs arbitrary: i) (auto split: nat.splits)

lemma chipsInPlay_alt: "chipsInPlay t = chipsOf t + getTotalPot (potManager t)"
  by (simp add: chipsInPlay_def chipsOf_def)


lemma chipsOf_simps [simp]:
  "chipsOf (t\<lparr>potManager := pm\<rparr>) = chipsOf t"
  "chipsOf (t\<lparr>currentBetT := b\<rparr>) = chipsOf t"
  "chipsOf (t\<lparr>currentPlayerIndex := i\<rparr>) = chipsOf t"
  "chipsOf (t\<lparr>sequenceId := n\<rparr>) = chipsOf t"
  "chipsOf (t\<lparr>gameState := g\<rparr>) = chipsOf t"
  "chipsOf (t\<lparr>deck := d\<rparr>) = chipsOf t"
  "chipsOf (t\<lparr>communityCards := cc\<rparr>) = chipsOf t"
  by (simp_all add: chipsOf_def)

lemma chipsOf_updatePlayer:
  "getPlayerBySteamId t sid = Some p
   \<Longrightarrow> chipsOf (updatePlayer sid f t) = chipsOf t + chips (f p) - chips p"
  by (simp add: chipsOf_def updatePlayer_def getPlayerBySteamId_def sum_chips_updateFirst)

lemma chipsOf_updatePlayer_same:
  "(\<And>p. chips (f p) = chips p) \<Longrightarrow> chipsOf (updatePlayer sid f t) = chipsOf t"
  by (simp add: chipsOf_def updatePlayer_def map_chips_updateFirst_same)

lemma map_chips_map_same:
  "(\<And>x. chips (g x) = chips x) \<Longrightarrow> map chips (map g xs) = map chips xs"
  by (induction xs) auto

lemma chipsOf_reopenAction [simp]: "chipsOf (reopenAction sid t) = chipsOf t"
  unfolding chipsOf_def reopenAction_def
  by (simp del: map_map add: map_chips_map_same)

lemma pot_simps [simp]:
  "potManager (updatePlayer sid f t) = potManager t"
  "potManager (reopenAction sid t) = potManager t"
  "gameState (updatePlayer sid f t) = gameState t"
  "gameState (reopenAction sid t) = gameState t"
  by (simp_all add: updatePlayer_def reopenAction_def)

lemma keepsChips_refl [simp]: "keepsChips t t"
  by (simp add: keepsChips_def)

lemma handlePlayerFold_keeps: "keepsChips t (snd (handlePlayerFold t sid))"
  by (auto simp: handlePlayerFold_def keepsChips_def Let_def handleSingleWinner_def
      transitionTo_def chipsInPlay_alt chipsOf_updatePlayer_same split: option.splits)

lemma handlePlayerCheck_keeps: "keepsChips t (snd (handlePlayerCheck t sid))"
  by (auto simp: handlePlayerCheck_def split: option.splits)

lemma handlePlayerCall_keeps: "keepsChips t (snd (handlePlayerCall t sid))"
proof (cases "getPlayerBySteamId t sid")
  case None
  then show ?thesis by (simp add: handlePlayerCall_def)
next
  case (Some player)
  have keep: "chipsOf (updatePlayer sid (\<lambda>p. if chips p = 0 then p\<lparr>isAllIn := True\<rparr> else p) u)
              = chipsOf u" for u
    by (rule chipsOf_updatePlayer_same) simp
  show ?thesis
    using Some
    by (simp add: handlePlayerCall_def Let_def keepsChips_def chipsInPlay_alt keep
        chipsOf_updatePlayer getTotalPot_addContribution)
qed

lemma handlePlayerRaise_keeps: "keepsChips t (snd (handlePlayerRaise t sid amt))"
proof (cases "getPlayerBySteamId t sid")
  case None
  then show ?thesis by (simp add: handlePlayerRaise_def)
next
  case (Some player)
  have keep: "chipsOf (updatePlayer sid (\<lambda>p. if chips p = 0 then p\<lparr>isAllIn := True\<rparr> else p) u)
              = chipsOf u" for u
    by (rule chipsOf_updatePlayer_same) simp
  show ?thesis
    using Some
    by (simp add: handlePlayerRaise_def Let_def keepsChips_def chipsInPlay_alt keep
        chipsOf_updatePlayer getTotalPot_addContribution split: option.splits)
qed

lemma handlePlayerAllIn_keeps: "keepsChips t (snd (handlePlayerAllIn t sid))"
proof (cases "getPlayerBySteamId t sid")
  case None
  then show ?thesis by (simp add: handlePlayerAllIn_def)
next
  case (Some player)
  show ?thesis
    using Some
    by (simp add: handlePlayerAllIn_def Let_def keepsChips_def chipsInPlay_alt
        chipsOf_updatePlayer getTotalPot_addContribution)
qed

lemma dispatch_keeps: "keepsChips t (snd (dispatch t sid action amt))"
  by (cases action)
     (simp_all add: dispatch_def handlePlayerFold_keeps handlePlayerCheck_keeps
        handlePlayerCall_keeps handlePlayerRaise_keeps handlePlayerAllIn_keeps)

lemma dispatch_rejected: "fst (dispatch t sid action amt) = False \<Longrightarrow> snd (dispatch t sid action amt) = t"
  by (cases action)
     (auto simp: dispatch_def handlePlayerFold_def handlePlayerCheck_def handlePlayerCall_def
        handlePlayerRaise_def handlePlayerAllIn_def Let_def split: option.splits if_splits)

subsection \<open>One request, and a sequence of requests\<close>

lemma chipsInPlay_marked [simp]:
  "chipsInPlay (t\<lparr>players := (players t)[i := (players t ! i)\<lparr>hasActed := True\<rparr>],
                  sequenceId := n\<rparr>) = chipsInPlay t"
  by (simp add: chipsInPlay_def map_chips_update_same)

lemma chipsInPlay_transitionTo [simp]: "chipsInPlay (transitionTo st t) = chipsInPlay t"
  by (simp add: chipsInPlay_def transitionTo_def)

lemma chipsInPlay_index [simp]: "chipsInPlay (t\<lparr>currentPlayerIndex := i\<rparr>) = chipsInPlay t"
  by (simp add: chipsInPlay_def)

lemma chipsInPlay_advance [simp]: "chipsInPlay (advanceToNextPlayer t) = chipsInPlay t"
  by (simp add: advanceToNextPlayer_def chipsInPlay_def)

lemma gameState_advance [simp]: "gameState (advanceToNextPlayer t) = gameState t"
  by (simp add: advanceToNextPlayer_def)

lemma chipsInPlay_startBettingRound [simp]:
  "chipsInPlay (startBettingRound t) = chipsInPlay t"
  unfolding chipsInPlay_def startBettingRound_def
  by (simp del: map_map add: map_chips_map_same)

lemma chipsInPlay_newStreet [simp]: "chipsInPlay (newStreet st t) = chipsInPlay t"
  unfolding chipsInPlay_def newStreet_def transitionTo_def Let_def
  by (simp del: map_map add: map_chips_map_same)

lemma gameState_newStreet [simp]: "gameState (newStreet st t) = st"
  by (simp add: newStreet_def transitionTo_def Let_def)

lemma gameState_startBettingRound [simp]: "gameState (startBettingRound t) = gameState t"
  by (simp add: startBettingRound_def)

lemma burnAndDeal_chips:
  "burnAndDeal n t = Inr t' \<Longrightarrow> chipsInPlay t' = chipsInPlay t"
  by (auto simp: burnAndDeal_def chipsInPlay_def split: sum.splits prod.splits)

lemma deal_streets_chips:
  "dealFlop t = Inr t' \<Longrightarrow> chipsInPlay t' = chipsInPlay t"
  "dealTurn t = Inr t' \<Longrightarrow> chipsInPlay t' = chipsInPlay t"
  "dealRiver t = Inr t' \<Longrightarrow> chipsInPlay t' = chipsInPlay t"
  by (auto simp: dealFlop_def dealTurn_def dealRiver_def Let_def
      split: sum.splits dest!: burnAndDeal_chips)

lemma startShowdown_state:
  "startShowdown t = Inr t' \<Longrightarrow> gameState t' = PAYOUT_ANIMATION"
  by (auto simp: startShowdown_def calculatePayouts_def Let_def transitionTo_def
      split: sum.splits prod.splits)

text \<open>Closing a round keeps the chips in play unless it ends in the payout.\<close>

lemma endBettingRound_keeps:
  "endBettingRound t = Inr t'
   \<Longrightarrow> chipsInPlay t' = chipsInPlay t \<or> gameState t' = PAYOUT_ANIMATION"
  by (cases "gameState t")
     (auto simp: endBettingRound_def dest: deal_streets_chips startShowdown_state)

lemma endBettingRound_after_payout:
  "gameState t = PAYOUT_ANIMATION \<Longrightarrow> endBettingRound t = Inr t"
  by (simp add: endBettingRound_def)

lemma isInBettingRound_not_payout:
  "gameState t = PAYOUT_ANIMATION \<Longrightarrow> \<not> isInBettingRound t"
  by (simp add: isInBettingRound_def)

lemma handlePlayerAction_rejected_unchanged:
  "handlePlayerAction t sid action amt = Inr (False, events, t') \<Longrightarrow> t' = t"
  using dispatch_rejected [of t sid action amt]
  by (auto simp: handlePlayerAction_def Let_def
      split: option.splits if_splits prod.splits sum.splits)

lemma handlePlayerAction_outside_round:
  "\<not> isInBettingRound t
   \<Longrightarrow> handlePlayerAction t sid action amt = Inr (accepted, events, t') \<Longrightarrow> t' = t"
  by (auto simp: handlePlayerAction_def split: option.splits if_splits)

lemma handlePlayerAction_chips:
  assumes "handlePlayerAction t sid action amt = Inr (accepted, events, t')"
    and "isInBettingRound t'"
  shows "chipsInPlay t' = chipsInPlay t"
proof (cases accepted)
  case False
  with assms(1) show ?thesis
    by (auto dest: handlePlayerAction_rejected_unchanged)
next
  case True
  obtain ok t1 where d: "dispatch t sid action amt = (ok, t1)"
    by (cases "dispatch t sid action amt")
  define t2 where
    "t2 = t1\<lparr>players := (players t1)[currentPlayerIndex t :=
                          (players t1 ! currentPlayerIndex t)\<lparr>hasActed := True\<rparr>],
             sequenceId := sequenceId t1 + 1\<rparr>"
  have c2: "chipsInPlay t2 = chipsInPlay t1" and g2: "gameState t2 = gameState t1"
    by (simp_all add: t2_def)
  from assms(1) True d
  have fin: "(isBettingRoundComplete t2 \<and> endBettingRound t2 = Inr t')
             \<or> (\<not> isBettingRoundComplete t2 \<and> t' = advanceToNextPlayer t2)"
    by (auto simp: handlePlayerAction_def Let_def t2_def
        split: option.splits if_splits sum.splits)
  from dispatch_keeps [of t sid action amt] d
  have k: "keepsChips t t1" by simp
  show ?thesis
  proof (cases "gameState t1 = PAYOUT_ANIMATION")
    case True
    with g2 have p2: "gameState t2 = PAYOUT_ANIMATION" by simp
    from fin have "gameState t' = PAYOUT_ANIMATION"
    proof
      assume "isBettingRoundComplete t2 \<and> endBettingRound t2 = Inr t'"
      with endBettingRound_after_payout [OF p2] show ?thesis
        using p2 by simp
    next
      assume "\<not> isBettingRoundComplete t2 \<and> t' = advanceToNextPlayer t2"
      with p2 show ?thesis by simp
    qed
    with assms(2) show ?thesis
      by (simp add: isInBettingRound_not_payout)
  next
    case False
    with k have c1: "chipsInPlay t1 = chipsInPlay t"
      by (simp add: keepsChips_def)
    from fin show ?thesis
    proof
      assume a: "isBettingRoundComplete t2 \<and> endBettingRound t2 = Inr t'"
      then have "chipsInPlay t' = chipsInPlay t2 \<or> gameState t' = PAYOUT_ANIMATION"
        by (auto dest: endBettingRound_keeps)
      with assms(2) c1 c2 show ?thesis
        by (auto simp: isInBettingRound_not_payout)
    next
      assume "\<not> isBettingRoundComplete t2 \<and> t' = advanceToNextPlayer t2"
      with c1 c2 show ?thesis by simp
    qed
  qed
qed

lemma playActions_outside_round:
  "\<not> isInBettingRound t \<Longrightarrow> playActions t acts = Inr t' \<Longrightarrow> t' = t"
proof (induction acts arbitrary: t)
  case Nil
  then show ?case by simp
next
  case (Cons a acts)
  obtain sid action amt where a: "a = (sid, action, amt)" by (cases a)
  from Cons.prems(2) a obtain accepted events t1
    where h: "handlePlayerAction t sid action amt = Inr (accepted, events, t1)"
      and r: "playActions t1 acts = Inr t'"
    by (auto split: sum.splits)
  from handlePlayerAction_outside_round [OF Cons.prems(1) h] have "t1 = t" .
  with Cons.IH [OF Cons.prems(1)] r show ?case by simp
qed

lemma playActions_chips:
  "playActions t acts = Inr t' \<Longrightarrow> isInBettingRound t' \<Longrightarrow> chipsInPlay t' = chipsInPlay t"
proof (induction acts arbitrary: t)
  case Nil
  then show ?case by simp
next
  case (Cons a acts)
  obtain sid action amt where a: "a = (sid, action, amt)" by (cases a)
  from Cons.prems(1) a obtain accepted events t1
    where h: "handlePlayerAction t sid action amt = Inr (accepted, events, t1)"
      and r: "playActions t1 acts = Inr t'"
    by (auto split: sum.splits)
  have b1: "isInBettingRound t1"
  proof (rule ccontr)
    assume "\<not> isInBettingRound t1"
    from playActions_outside_round [OF this r] Cons.prems(2) this show False by simp
  qed
  from Cons.IH [OF r Cons.prems(2)] handlePlayerAction_chips [OF h b1]
  show ?case by simp
qed

subsection \<open>The start of a hand\<close>

lemma dealHoleLoop_chips:
  "dealHoleLoop d ps = Inr (d', ps') \<Longrightarrow> map chips ps' = map chips ps"
  by (induction ps arbitrary: d d' ps')
     (auto split: if_splits sum.splits prod.splits)

lemma dealHoleCards_chips:
  "dealHoleCards t = Inr t' \<Longrightarrow> chipsOf t' = chipsOf t \<and> potManager t' = potManager t"
  by (auto simp: dealHoleCards_def chipsOf_def split: sum.splits prod.splits
      dest: dealHoleLoop_chips)

lemma chips_postBlind: "chips (postBlind b p) = chips p - min b (chips p)"
  by (simp add: postBlind_def Let_def)

lemma sum_chips_update:
  "i < length xs
   \<Longrightarrow> sum_list (map chips (xs[i := x])) = sum_list (map chips xs) - chips (xs ! i) + chips x"
  by (simp add: map_update sum_list_update_int)

lemma sum_chips_postBlind:
  "i < length xs
   \<Longrightarrow> sum_list (map chips (xs[i := postBlind b (xs ! i)]))
       = sum_list (map chips xs) - min b (chips (xs ! i))"
  by (simp only: sum_chips_update chips_postBlind)

lemma postBlinds_chips: "chipsInPlay (postBlinds t) = chipsInPlay t"
proof (cases "length (players t) < 2")
  case True
  then show ?thesis by (simp add: postBlinds_def)
next
  case False
  let ?n = "length (players t)"
  let ?sb = "(dealerPosition t + 1) mod ?n"
  let ?bb = "(dealerPosition t + 2) mod ?n"
  let ?ps1 = "(players t)[?sb := postBlind (smallBlind t) (players t ! ?sb)]"
  from False have n: "0 < ?n" by linarith
  then have sb: "?sb < length (players t)" and bb: "?bb < length ?ps1"
    by simp_all
  note s1 = sum_chips_postBlind [OF sb, of "smallBlind t"]
  note s2 = sum_chips_postBlind [OF bb, of "bigBlind t"]
  have "chipsInPlay (postBlinds t)
        = sum_list (map chips (?ps1[?bb := postBlind (bigBlind t) (?ps1 ! ?bb)]))
          + (getTotalPot (potManager t) + min (smallBlind t) (chips (players t ! ?sb))
             + min (bigBlind t) (chips (?ps1 ! ?bb)))"
    using False
    by (simp add: postBlinds_def Let_def chipsInPlay_def getTotalPot_addContribution)
  also have "\<dots> = chipsInPlay t"
    unfolding s2 s1 by (simp add: chipsInPlay_def)
  finally show ?thesis .
qed

lemma startHand_chips:
  assumes "startHand t shuffled = Inr t'"
  shows "chipsInPlay t' = sum_list (map chips (players t))"
proof -
  define t2 where
    "t2 = transitionTo DEALING
            (t\<lparr>deck := shuffled, potManager := [], communityCards := [],
               currentBetT := bigBlind t, players := map resetPlayer (players t)\<rparr>)"
  have c2: "chipsOf t2 = sum_list (map chips (players t))" and p2: "potManager t2 = []"
    unfolding t2_def transitionTo_def chipsOf_def resetPlayer_def
    by (simp_all del: map_map add: map_chips_map_same)
  from assms obtain t3 where d: "dealHoleCards t2 = Inr t3"
    and r: "t' = startBettingRound (transitionTo PRE_FLOP (postBlinds t3))"
    by (auto simp: startHand_def Let_def t2_def split: sum.splits)
  from dealHoleCards_chips [OF d] c2 p2
  have "chipsInPlay t3 = sum_list (map chips (players t))"
    by (simp add: chipsInPlay_alt getTotalPot_def)
  moreover have "chipsInPlay t' = chipsInPlay (postBlinds t3)"
    by (simp add: r)
  ultimately show ?thesis by (simp add: postBlinds_chips)
qed

text \<open>
  Claim C1, as stated, fails: an accepted action that ends the hand pays the winner
  while the pot manager keeps its total (only the next \<^verbatim>\<open>startHand\<close> resets it). Heads-up
  with stacks of 1000 each, the small blind's fold is accepted and leaves stacks of 2000
  and a pot total of 30; and when the small blind calls and both check to the showdown,
  the last check is accepted and leaves stacks of 2000 and a pot total of 40.
\<close>

theorem chips_after_payout_counterexample:
  "sum_list (map chips (players headsUpTable)) = 2000
   \<and> startHand headsUpTable fullDeck = Inr (dealt headsUpTable)
   \<and> map_sum id (\<lambda>(accepted, events, t).
        (accepted, gameState t, sum_list (map chips (players t)), getTotalPot (potManager t)))
        (handlePlayerAction (dealt headsUpTable) ''P2'' FOLD None)
      = Inr (True, PAYOUT_ANIMATION, 2000, 30)
   \<and> map_sum id (\<lambda>t.
        (gameState t, sum_list (map chips (players t)), getTotalPot (potManager t)))
        (playActions (dealt headsUpTable) checkDown)
      = Inr (PAYOUT_ANIMATION, 2000, 40)"
  by code_simp

text \<open>
  Claim C1, amended: for every hand (started by \<^verbatim>\<open>startHand\<close>, which posts the blinds)
  and every sequence of action requests, as long as the table is still in a betting
  round after the last request, the sum of all seated players' stacks plus
  \<^verbatim>\<open>getTotalPot()\<close> equals the sum of those players' stacks at the start of the hand.
\<close>

theorem chips_conserved_while_betting:
  assumes "startHand t0 shuffled = Inr t1"
    and "playActions t1 acts = Inr t2"
    and "isInBettingRound t2"
  shows "sum_list (map chips (players t2)) + getTotalPot (potManager t2)
         = sum_list (map chips (players t0))"
  using playActions_chips [OF assms(2) assms(3)] startHand_chips [OF assms(1)]
  by (simp add: chipsInPlay_def)

theorem chips_conserved_while_betting_witness:
  "startHand threeTable fullDeck = Inr (dealt threeTable)
   \<and> playActions (dealt threeTable) raiseCallFold = Inr (played (dealt threeTable) raiseCallFold)
   \<and> gameState (played (dealt threeTable) raiseCallFold) = FLOP
   \<and> getTotalPot (potManager (played (dealt threeTable) raiseCallFold)) = 220
   \<and> sum_list (map chips (players (played (dealt threeTable) raiseCallFold))) + 220 = 3000"
proof -
  have a: "startHand threeTable fullDeck = Inr (dealt threeTable)"
    by code_simp
  have b: "playActions (dealt threeTable) raiseCallFold
           = Inr (played (dealt threeTable) raiseCallFold)"
    by code_simp
  have g: "gameState (played (dealt threeTable) raiseCallFold) = FLOP"
    by code_simp
  then have c: "isInBettingRound (played (dealt threeTable) raiseCallFold)"
    by (simp add: isInBettingRound_def)
  have p: "getTotalPot (potManager (played (dealt threeTable) raiseCallFold)) = 220"
    by code_simp
  have s: "sum_list (map chips (players threeTable)) = 3000"
    by code_simp
  from chips_conserved_while_betting [OF a b c] a b g p s show ?thesis by simp
qed

subsection \<open>Rejected requests\<close>

text \<open>
  Claim C9: a rejected request never changes the table (lemma
  \<open>handlePlayerAction_rejected_unchanged\<close> above), but two of the four kinds of rejection
  raise no error event. The acting player's request outside a betting round, and the
  request of an acting player who is all-in, both return \<^verbatim>\<open>false\<close> with an empty event
  list.
\<close>

theorem handlePlayerAction_silent_rejection:
  "gameState headsUpTable = WAITING_FOR_PLAYERS
   \<and> map_option steamId (getCurrentPlayer headsUpTable) = Some ''P1''
   \<and> handlePlayerAction headsUpTable ''P1'' CHECK None = Inr (False, [], headsUpTable)
   \<and> gameState (dealt shortTable) = PRE_FLOP
   \<and> map_option (\<lambda>p. (steamId p, isAllIn p)) (getCurrentPlayer (dealt shortTable))
       = Some (''P2'', True)
   \<and> handlePlayerAction (dealt shortTable) ''P2'' CALL None = Inr (False, [], dealt shortTable)"
  by code_simp

end
